theory Spec2Isabelle
  imports Main "HOL-Library.Sublist"
begin

section \<open>Dates: the three date-fns functions the agenda calls\<close>

text \<open>
  Modelled from the spec: \<open>date-fns\<close> (\<open>format\<close>, \<open>addDays\<close>, \<open>subDays\<close>,
  \<open>isWeekend\<close>) is a library the pages import, not a file of the repository. The
  specification fixes what the agenda needs of it: dates are ISO calendar-date strings
  \<open>yyyy-MM-dd\<close>, a weekend is a Saturday or a Sunday, and a date advances one day at a
  time.

  A \<open>Date\<close> is modelled by its local calendar day, counted in days from 1970-01-01 (day
  \<open>0\<close>, a Thursday). The time of day is dropped: none of the three functions reads it,
  and \<open>addDays\<close> keeps it. The count is unbounded; JavaScript's own limit of
  100,000,000 days on either side of 1970 is not modelled.
\<close>

type_synonym date = int

text \<open>\<open>Date.prototype.getDay\<close>: 0 is Sunday, 6 is Saturday.\<close>

definition getDay :: "date \<Rightarrow> int" where
  "getDay d = (d + 4) mod 7"

text \<open>\<open>isWeekend(date)\<close>: \<open>const day = date.getDay(); return day === 0 || day === 6\<close>.\<close>

definition isWeekend :: "date \<Rightarrow> bool" where
  "isWeekend d = (getDay d = 0 \<or> getDay d = 6)"

definition addDays :: "date \<Rightarrow> int \<Rightarrow> date" where
  "addDays d amount = d + amount"

definition subDays :: "date \<Rightarrow> int \<Rightarrow> date" where
  "subDays d amount = addDays d (- amount)"

text \<open>
  Year, month (1 to 12) and day of the month of a day count in the proleptic Gregorian
  calendar (\<open>getFullYear\<close>, \<open>getMonth + 1\<close>, \<open>getDate\<close>). The computation works in
  400-year eras of 146097 days whose years begin on the first of March.
\<close>

definition civil :: "date \<Rightarrow> int \<times> int \<times> int" where
  "civil n =
     (let z = n + 719468;
          era = z div 146097;
          doe = z mod 146097;
          yoe = (doe - doe div 1460 + doe div 36524 - doe div 146096) div 365;
          doy = doe - (365 * yoe + yoe div 4 - yoe div 100);
          mp = (5 * doy + 2) div 153;
          d = doy - (153 * mp + 2) div 5 + 1;
          m = (if mp < 10 then mp + 3 else mp - 9);
          y = yoe + era * 400 + (if m \<le> 2 then 1 else 0)
      in (y, m, d))"

text \<open>\<open>Number.prototype.toString\<close> on a natural number: its decimal digits.\<close>

fun digits :: "nat \<Rightarrow> string" where
  "digits n =
     (if n < 10 then [''0123456789'' ! n]
      else digits (n div 10) @ [''0123456789'' ! (n mod 10)])"

declare digits.simps [simp del]

text \<open>date-fns \<open>addLeadingZeros\<close>: \<open>number.toString().padStart(targetLength, "0")\<close>.\<close>

definition addLeadingZeros :: "nat \<Rightarrow> nat \<Rightarrow> string" where
  "addLeadingZeros n targetLength =
     replicate (targetLength - length (digits n)) CHR ''0'' @ digits n"

text \<open>
  \<open>format(date, "yyyy-MM-dd")\<close>. The token \<open>yyyy\<close> prints the year of the era, padded
  to four digits: \<open>signedYear > 0 ? signedYear : 1 - signedYear\<close>.
\<close>

definition format_date :: "date \<Rightarrow> string" where
  "format_date dt =
     (case civil dt of (y, m, d) \<Rightarrow>
        addLeadingZeros (nat (if y > 0 then y else 1 - y)) 4 @ ''-'' @
        addLeadingZeros (nat m) 2 @ ''-'' @ addLeadingZeros (nat d) 2)"

section \<open>The agenda page (frontend/src/pages/AgendaPage.jsx)\<close>

subsection \<open>getNextWorkingDay\<close>

text \<open>
  \<^verbatim>\<open>while (isWeekend(d) || holidayList.includes(format(d, "yyyy-MM-dd"))) { d = addDays(d, 1); }\<close>
  The loop has no bound of its own, so it is a partial function: \<open>None\<close> stands for a
  loop that never ends. \<open>holidayList\<close> is the list of date strings of
  \<open>GET /calendar/holidays\<close>.
\<close>

partial_function (option) skipNonWorkingDays :: "date \<Rightarrow> string list \<Rightarrow> date option" where
  "skipNonWorkingDays d holidayList =
     (if isWeekend d \<or> format_date d \<in> set holidayList
      then skipNonWorkingDays (addDays d 1) holidayList
      else Some d)"

text \<open>\<open>let d = new Date(date)\<close>, the loop, \<open>return d\<close>. The local \<open>dateStr\<close> is never
  read.\<close>

definition getNextWorkingDay :: "date \<Rightarrow> string list \<Rightarrow> date option" where
  "getNextWorkingDay dt holidayList = skipNonWorkingDays dt holidayList"

text \<open>\<open>isHoliday(date)\<close> of the page, over the \<open>holidays\<close> state.\<close>

definition isHoliday :: "string list \<Rightarrow> date \<Rightarrow> bool" where
  "isHoliday holidays dt = (let dateStr = format_date dt in isWeekend dt \<or> dateStr \<in> set holidays)"

subsection \<open>Appointments\<close>

text \<open>An appointment as \<open>GET /appointments\<close> returns it.\<close>

record appointment =
  a_id :: string
  a_patient_id :: string
  a_data :: string
  a_ora :: string
  a_tipo :: string
  a_prestazioni :: "string list"
  a_stato :: string

text \<open>\<open>appointments.filter((a) => a.ora === ora && a.tipo === tipo)\<close>\<close>

definition getAppointmentsForSlot :: "appointment list \<Rightarrow> string \<Rightarrow> string \<Rightarrow> appointment list" where
  "getAppointmentsForSlot appointments ora tipo =
     filter (\<lambda>a. a_ora a = ora \<and> a_tipo a = tipo) appointments"

text \<open>
  The specification's \<open>appointmentsForSlot(date, hour, type, appointments)\<close>, in its
  words: an exact filter by all three keys.
\<close>

definition appointmentsForSlot_spec ::
    "string \<Rightarrow> string \<Rightarrow> string \<Rightarrow> appointment list \<Rightarrow> appointment list" where
  "appointmentsForSlot_spec dateStr hour type appointments =
     filter (\<lambda>a. a_data a = dateStr \<and> a_ora a = hour \<and> a_tipo a = type) appointments"

subsection \<open>Closure records\<close>

text \<open>
  A closure record as \<open>GET /closed-slots\<close> returns it for the day on screen. The page
  reads \<open>id\<close>, \<open>ora\<close>, \<open>tipo\<close> and \<open>motivo\<close>. \<open>ora\<close> and \<open>tipo\<close> are
  nullable strings: \<open>None\<close> is JavaScript's \<open>null\<close>.
\<close>

record closed_slot =
  cs_id :: string
  cs_ora :: "string option"
  cs_tipo :: "string option"
  cs_motivo :: string

text \<open>
  JavaScript's \<open>!v\<close> on a nullable string: \<open>null\<close> and the empty string are falsy,
  every other string is truthy. This is the test the page uses for "no hour" and
  "no type" (\<open>!cs.ora\<close>, \<open>!cs.tipo\<close>, and \<open>slot.ora ? ... : "Tutta la giornata"\<close>).
\<close>

fun falsy :: "string option \<Rightarrow> bool" where
  "falsy None = True"
| "falsy (Some s) = (s = [])"

text \<open>
  The callback shared by \<open>isSlotClosed\<close> and \<open>getClosedSlotInfo\<close>, with its four
  tests in the order of the source. \<open>cs.ora === ora\<close> compares a nullable string with
  the string argument.
\<close>

definition closedSlotMatches :: "string \<Rightarrow> string \<Rightarrow> closed_slot \<Rightarrow> bool" where
  "closedSlotMatches ora tipo cs =
     (if falsy (cs_ora cs) \<and> falsy (cs_tipo cs) then True
      else if falsy (cs_ora cs) \<and> cs_tipo cs = Some tipo then True
      else if cs_ora cs = Some ora \<and> falsy (cs_tipo cs) then True
      else if cs_ora cs = Some ora \<and> cs_tipo cs = Some tipo then True
      else False)"

text \<open>\<open>closedSlots.some(cs => ...)\<close>\<close>

definition isSlotClosed :: "closed_slot list \<Rightarrow> string \<Rightarrow> string \<Rightarrow> bool" where
  "isSlotClosed closedSlots ora tipo = list_ex (closedSlotMatches ora tipo) closedSlots"

text \<open>\<open>closedSlots.find(cs => ...)\<close>: the first element the callback accepts, or
  \<open>undefined\<close> (\<open>None\<close>).\<close>

definition getClosedSlotInfo :: "closed_slot list \<Rightarrow> string \<Rightarrow> string \<Rightarrow> closed_slot option" where
  "getClosedSlotInfo closedSlots ora tipo = find (closedSlotMatches ora tipo) closedSlots"

text \<open>\<open>closedSlots.some(cs => !cs.ora && !cs.tipo)\<close>\<close>

definition isDayClosed :: "closed_slot list \<Rightarrow> bool" where
  "isDayClosed closedSlots = list_ex (\<lambda>cs. falsy (cs_ora cs) \<and> falsy (cs_tipo cs)) closedSlots"

text \<open>
  The wildcard rule in the words of the specification: the record's hour is unset or
  equals the hour, and the record's type is unset or equals the type. "Unset" is the
  page's own test, \<open>falsy\<close>.
\<close>

definition wildcardRule :: "string \<Rightarrow> string \<Rightarrow> closed_slot \<Rightarrow> bool" where
  "wildcardRule hour type r =
     ((falsy (cs_ora r) \<or> cs_ora r = Some hour) \<and> (falsy (cs_tipo r) \<or> cs_tipo r = Some type))"

text \<open>
  Modelled from the spec: the server behind \<open>POST /closed-slots\<close> and
  \<open>DELETE /closed-slots/{id}\<close> is not under src/. Closing one hour for one type
  (\<open>handleCloseAgenda\<close> with a single hour and a type other than "both") stores a record
  with that hour and type under a new id; reopening (\<open>handleReopenSlot(slot.id)\<close>)
  deletes the record with that id. The page then fetches the day's list again.
\<close>

definition closeSlot :: "closed_slot list \<Rightarrow> string \<Rightarrow> string \<Rightarrow> string \<Rightarrow> string \<Rightarrow> closed_slot list" where
  "closeSlot closedSlots newId ora tipo motivo =
     closedSlots @ [\<lparr>cs_id = newId, cs_ora = Some ora, cs_tipo = Some tipo, cs_motivo = motivo\<rparr>]"

definition reopenSlot :: "closed_slot list \<Rightarrow> string \<Rightarrow> closed_slot list" where
  "reopenSlot closedSlots slotId = filter (\<lambda>cs. cs_id cs \<noteq> slotId) closedSlots"

subsection \<open>Patients and the patient search of the booking dialog\<close>

text \<open>
  A patient as \<open>GET /patients\<close> returns it. \<open>tipo\<close> is \<open>"PICC"\<close>, \<open>"MED"\<close> or
  \<open>"PICC_MED"\<close>; \<open>nome\<close> and \<open>cognome\<close> are the given and the family name, which
  every patient has (the creation forms refuse a patient without them).
\<close>

record patient =
  p_id :: string
  p_nome :: string
  p_cognome :: string
  p_tipo :: string
  p_status :: string

text \<open>
  \<open>String.prototype.toLowerCase\<close> is a built-in of the JavaScript runtime: it folds
  every cased letter of Unicode, by a table that is no part of the repository. The
  functions that call it take it as their parameter \<open>toLowerCase\<close>, a function from
  strings to strings, and what is proved of them holds for every such function. Of the
  characters of a string only their equality is read.
\<close>

text \<open>\<open>s.includes(q)\<close>: \<open>q\<close> occurs in \<open>s\<close> as a contiguous substring.\<close>

fun includes_str :: "string \<Rightarrow> string \<Rightarrow> bool" where
  "includes_str [] q = (q = [])"
| "includes_str (c # cs) q = (prefix q (c # cs) \<or> includes_str cs q)"

text \<open>The slot being booked: \<open>{ ora, tipo }\<close>.\<close>

record slot =
  slot_ora :: string
  slot_tipo :: string

text \<open>The part of the page's state that the slot click and the patient search touch.\<close>

record agenda_state =
  currentDate :: date
  holidays :: "string list"
  appointments :: "appointment list"
  patients :: "patient list"
  closedSlots :: "closed_slot list"
  reopenDialogOpen :: bool
  dialogOpen :: bool
  selectedSlot :: "slot option"
  searchQuery :: string
  filteredPatients :: "patient list"
  selectedPatient :: "patient option"
  selectedPrestazioni :: "string list"

text \<open>
  The effect on \<open>[searchQuery, patients, selectedSlot]\<close>: with a query of at least one
  character and a selected slot, \<open>filteredPatients\<close> becomes the filtered roster,
  otherwise the empty list. \<open>patients\<close> is the roster fetched with
  \<open>status: "in_cura"\<close>.
\<close>

definition patientSearchEffect :: "(string \<Rightarrow> string) \<Rightarrow> agenda_state \<Rightarrow> agenda_state" where
  "patientSearchEffect toLowerCase s =
     (if length (searchQuery s) \<ge> 1 \<and> selectedSlot s \<noteq> None then
        (case selectedSlot s of
           None \<Rightarrow> s\<lparr>filteredPatients := []\<rparr>
         | Some sl \<Rightarrow>
             let tipo = slot_tipo sl;
                 filtered = filter (\<lambda>p.
                   let matchesSearch =
                         (includes_str (toLowerCase (p_nome p)) (toLowerCase (searchQuery s)) \<or>
                          includes_str (toLowerCase (p_cognome p)) (toLowerCase (searchQuery s)));
                       matchesTipo = (p_tipo p = tipo \<or> p_tipo p = ''PICC_MED'')
                   in matchesSearch \<and> matchesTipo) (patients s)
             in s\<lparr>filteredPatients := filtered\<rparr>)
      else s\<lparr>filteredPatients := []\<rparr>)"

text \<open>
  A name contains the query case-insensitively: with both folded to lower case, the
  query occurs in the name, between some beginning and some end of it.
\<close>

definition containsIgnoringCase :: "(string \<Rightarrow> string) \<Rightarrow> string \<Rightarrow> string \<Rightarrow> bool" where
  "containsIgnoringCase toLowerCase name q =
     (\<exists>pre post. toLowerCase name = pre @ toLowerCase q @ post)"

subsection \<open>handleSlotClick\<close>

text \<open>
  The click on a slot cell. The result is the new state together with the error toasts
  shown. The four outcomes of the source, in its order: return at once on a weekend or
  holiday; open the reopen dialog on a closed slot; the toast on a full slot; otherwise
  open the booking dialog for the slot.
\<close>

definition handleSlotClick :: "agenda_state \<Rightarrow> string \<Rightarrow> string \<Rightarrow> agenda_state \<times> string list" where
  "handleSlotClick s ora tipo =
     (if isHoliday (holidays s) (currentDate s) then (s, [])
      else if isSlotClosed (closedSlots s) ora tipo then (s\<lparr>reopenDialogOpen := True\<rparr>, [])
      else
        let existing = getAppointmentsForSlot (appointments s) ora tipo in
        if length existing \<ge> 2 then (s, [''Slot pieno (max 2 pazienti)''])
        else (s\<lparr>selectedSlot := Some \<lparr>slot_ora = ora, slot_tipo = tipo\<rparr>,
                 searchQuery := [],
                 selectedPatient := None,
                 selectedPrestazioni := [],
                 dialogOpen := True\<rparr>, []))"

text \<open>
  The specification's \<open>canBook\<close>, in its words: reject a non-working day (a weekend day,
  or a day whose date string is in the holiday set), else a closed slot (some closure
  record matches under the wildcard rule), else a slot that already holds two
  appointments, counted by \<open>appointmentsForSlot\<close>, the exact filter by date, hour and
  type; otherwise permit the booking.
\<close>

datatype reject_reason = NON_WORKING_DAY | SLOT_CLOSED | SLOT_FULL

datatype booking = Ok | Rejected reject_reason

definition canBook_spec ::
    "date \<Rightarrow> string \<Rightarrow> string \<Rightarrow> string list \<Rightarrow> closed_slot list \<Rightarrow> appointment list \<Rightarrow> booking" where
  "canBook_spec dt hour type holidaySet closureRecords apts =
     (if isWeekend dt \<or> format_date dt \<in> set holidaySet then Rejected NON_WORKING_DAY
      else if list_ex (wildcardRule hour type) closureRecords then Rejected SLOT_CLOSED
      else if length (appointmentsForSlot_spec (format_date dt) hour type apts) \<ge> 2
        then Rejected SLOT_FULL
      else Ok)"

section \<open>The patient roster page (src/unnamed/part_000, PazientiPage)\<close>

subsection \<open>The visible list\<close>

text \<open>\<open>allPatients\<close>: one list for each lifecycle status, each fetched by its status.\<close>

record all_patients =
  in_cura :: "patient list"
  dimesso :: "patient list"
  sospeso :: "patient list"

text \<open>
  \<open>allPatients[activeTab]\<close>: the list under one of the object's three keys,
  \<open>undefined\<close> (\<open>None\<close>) under any other tab value.
\<close>

definition allPatients_at :: "all_patients \<Rightarrow> string \<Rightarrow> patient list option" where
  "allPatients_at ap tab =
     (if tab = ''in_cura'' then Some (in_cura ap)
      else if tab = ''dimesso'' then Some (dimesso ap)
      else if tab = ''sospeso'' then Some (sospeso ap)
      else None)"

text \<open>
  The filter callback of \<open>filteredPatients\<close>, with the early \<open>return false\<close> of the
  source in its order. \<open>p.nome?.toLowerCase()\<close> is \<open>toLowerCase\<close> on a name that is
  always a string.
\<close>

definition rosterKeeps :: "(string \<Rightarrow> string) \<Rightarrow> string \<Rightarrow> string \<Rightarrow> patient \<Rightarrow> bool" where
  "rosterKeeps toLowerCase q typeFilter p =
     (if q \<noteq> [] \<and>
         (let query = toLowerCase q
          in \<not> includes_str (toLowerCase (p_nome p)) query \<and>
             \<not> includes_str (toLowerCase (p_cognome p)) query)
      then False
      else if typeFilter \<noteq> ''all'' \<and> typeFilter = ''PICC'' \<and>
              p_tipo p \<noteq> ''PICC'' \<and> p_tipo p \<noteq> ''PICC_MED'' then False
      else if typeFilter \<noteq> ''all'' \<and> typeFilter = ''MED'' \<and>
              p_tipo p \<noteq> ''MED'' \<and> p_tipo p \<noteq> ''PICC_MED'' then False
      else if typeFilter \<noteq> ''all'' \<and> typeFilter = ''PICC_MED'' \<and>
              p_tipo p \<noteq> ''PICC_MED'' then False
      else True)"

text \<open>
  A patient matches the search query: the query is empty, or the given or the family
  name contains it case-insensitively.
\<close>

definition matchesQuery :: "(string \<Rightarrow> string) \<Rightarrow> string \<Rightarrow> patient \<Rightarrow> bool" where
  "matchesQuery toLowerCase q p =
     (q = [] \<or> containsIgnoringCase toLowerCase (p_nome p) q
             \<or> containsIgnoringCase toLowerCase (p_cognome p) q)"

text \<open>\<open>allPatients[activeTab]?.filter(p => ...) || []\<close>\<close>

definition roster_filteredPatients ::
    "(string \<Rightarrow> string) \<Rightarrow> all_patients \<Rightarrow> string \<Rightarrow> string \<Rightarrow> string \<Rightarrow> patient list" where
  "roster_filteredPatients toLowerCase ap activeTab q typeFilter =
     (case allPatients_at ap activeTab of
        None \<Rightarrow> []
      | Some ps \<Rightarrow> filter (rosterKeeps toLowerCase q typeFilter) ps)"

subsection \<open>Status changes\<close>

text \<open>A value of a request body: a string, or the array of the selected patient ids.\<close>

datatype json = JString string | JArray "string list"

text \<open>What a handler does, in order: the toasts, the one request, the state updates.\<close>

datatype action =
    ToastError string
  | ToastSuccess string
  | ToastWarning string
  | ApiPut string "(string \<times> json) list"
  | SetStatusDialogOpen bool
  | SetBatchStatusDialogOpen bool
  | SetSelectedPatients "string list"
  | SetSelectionMode bool
  | FetchAllPatients

text \<open>The awaited request: resolved with the response data, or rejected.\<close>

datatype 'a response = Resolved 'a | Failed

text \<open>\<open>response.data\<close> of \<open>PUT /patients/batch/status\<close>.\<close>

record batch_result =
  updated :: nat
  errors :: nat

text \<open>
  The state both status dialogs share. \<open>selectedPatients\<close> is the \<open>Set\<close> of selected
  ids, as the list of its elements in insertion order (\<open>Array.from\<close>).
\<close>

record status_form =
  selectedPatientForStatus :: "patient option"
  selectedPatients :: "string list"
  newStatus :: string
  statusReason :: string
  statusNotes :: string

text \<open>\<open>statusLabels[newStatus]\<close> inside a template string: a missing key prints
  \<open>undefined\<close>.\<close>

definition statusLabels :: "string \<Rightarrow> string" where
  "statusLabels st =
     (if st = ''in_cura'' then ''ripreso in cura''
      else if st = ''dimesso'' then ''dimesso''
      else if st = ''sospeso'' then ''sospeso''
      else ''undefined'')"

definition batchStatusLabels :: "string \<Rightarrow> string" where
  "batchStatusLabels st =
     (if st = ''in_cura'' then ''ripresi in cura''
      else if st = ''dimesso'' then ''dimessi''
      else if st = ''sospeso'' then ''sospesi''
      else ''undefined'')"

text \<open>
  \<open>handleStatusChange\<close>: the guard on the selected patient, the three validations, then
  the request with \<open>updateData\<close> and what follows its outcome. \<open>!statusReason\<close> on a
  string is "the string is empty".
\<close>

definition handleStatusChange :: "status_form \<Rightarrow> unit response \<Rightarrow> action list" where
  "handleStatusChange f resp =
     (case selectedPatientForStatus f of
        None \<Rightarrow> []
      | Some pt \<Rightarrow>
          if newStatus f = ''dimesso'' \<and> statusReason f = [] then
            [ToastError ''Seleziona una motivazione per la dimissione'']
          else if newStatus f = ''sospeso'' \<and> statusNotes f = [] then
            [ToastError ''Inserisci una nota per la sospensione'']
          else if newStatus f = ''dimesso'' \<and> statusReason f = ''altro'' \<and> statusNotes f = [] then
            [ToastError ''Inserisci una nota per specificare il motivo'']
          else
            let updateData =
                  [(''status'', JString (newStatus f))] @
                  (if newStatus f = ''dimesso'' then
                     [(''discharge_reason'', JString (statusReason f)),
                      (''discharge_notes'', JString (statusNotes f))]
                   else if newStatus f = ''sospeso'' then
                     [(''suspend_notes'', JString (statusNotes f))]
                   else [])
            in ApiPut (''/patients/'' @ p_id pt) updateData #
               (case resp of
                  Resolved _ \<Rightarrow>
                    [ToastSuccess (''Paziente '' @ statusLabels (newStatus f)),
                     SetStatusDialogOpen False, FetchAllPatients]
                | Failed \<Rightarrow> [ToastError ''Errore nel cambio stato'']))"

text \<open>\<open>handleBatchStatusChange\<close>: the guard on the selection, the two validations, then
  the one batch request, whose body always carries all three metadata fields.\<close>

definition handleBatchStatusChange :: "status_form \<Rightarrow> batch_result response \<Rightarrow> action list" where
  "handleBatchStatusChange f resp =
     (if length (selectedPatients f) = 0 then []
      else if newStatus f = ''dimesso'' \<and> statusReason f = [] then
        [ToastError ''Seleziona una motivazione per la dimissione'']
      else if newStatus f = ''sospeso'' \<and> statusNotes f = [] then
        [ToastError ''Inserisci una nota per la sospensione'']
      else
        ApiPut ''/patients/batch/status''
          [(''patient_ids'', JArray (selectedPatients f)),
           (''status'', JString (newStatus f)),
           (''discharge_reason'', JString (statusReason f)),
           (''discharge_notes'', JString (statusNotes f)),
           (''suspend_notes'', JString (statusNotes f))] #
        (case resp of
           Resolved r \<Rightarrow>
             [ToastSuccess (digits (updated r) @ '' pazienti '' @ batchStatusLabels (newStatus f))] @
             (if errors r > 0 then [ToastWarning (digits (errors r) @ '' pazienti non processati'')]
              else []) @
             [SetBatchStatusDialogOpen False, SetSelectedPatients [], SetSelectionMode False,
              FetchAllPatients]
         | Failed \<Rightarrow> [ToastError ''Errore nel cambio stato'']))"

text \<open>The requests among the actions of a handler.\<close>

definition isApiPut :: "action \<Rightarrow> bool" where
  "isApiPut a = (case a of ApiPut _ _ \<Rightarrow> True | _ \<Rightarrow> False)"

text \<open>
  The required metadata is missing: a discharge without a reason, or a suspension without
  a note.
\<close>

definition metadataMissing :: "status_form \<Rightarrow> bool" where
  "metadataMissing f =
     ((newStatus f = ''dimesso'' \<and> statusReason f = []) \<or>
      (newStatus f = ''sospeso'' \<and> statusNotes f = []))"

text \<open>
  A request body carries the metadata of the target status: the discharge reason and
  notes for \<open>"dimesso"\<close>, the suspension note for \<open>"sospeso"\<close>.
\<close>

definition carriesMetadata :: "status_form \<Rightarrow> (string \<times> json) list \<Rightarrow> bool" where
  "carriesMetadata f body =
     ((newStatus f = ''dimesso'' \<longrightarrow>
         map_of body ''discharge_reason'' = Some (JString (statusReason f)) \<and>
         map_of body ''discharge_notes'' = Some (JString (statusNotes f))) \<and>
      (newStatus f = ''sospeso'' \<longrightarrow>
         map_of body ''suspend_notes'' = Some (JString (statusNotes f))))"

section \<open>Example data\<close>

text \<open>
  In the examples a character is a code unit below 256 (Basic Latin and Latin-1
  Supplement), so \<open>CHR 0xD2\<close> is the capital O with grave accent and \<open>CHR 0xF2\<close> the
  small one. On such strings the runtime's \<open>toLowerCase\<close> works letter by letter: the
  capital letters A to Z, U+00C0 to U+00D6 and U+00D8 to U+00DE go to the letter 32
  places on, every other character stays as it is.
\<close>

definition latin1Capitals :: string where
  "latin1Capitals =
     ''ABCDEFGHIJKLMNOPQRSTUVWXYZ'' @
     [CHR 0xC0, CHR 0xC1, CHR 0xC2, CHR 0xC3, CHR 0xC4, CHR 0xC5, CHR 0xC6, CHR 0xC7,
      CHR 0xC8, CHR 0xC9, CHR 0xCA, CHR 0xCB, CHR 0xCC, CHR 0xCD, CHR 0xCE, CHR 0xCF,
      CHR 0xD0, CHR 0xD1, CHR 0xD2, CHR 0xD3, CHR 0xD4, CHR 0xD5, CHR 0xD6, CHR 0xD8,
      CHR 0xD9, CHR 0xDA, CHR 0xDB, CHR 0xDC, CHR 0xDD, CHR 0xDE]"

definition latin1Smalls :: string where
  "latin1Smalls =
     ''abcdefghijklmnopqrstuvwxyz'' @
     [CHR 0xE0, CHR 0xE1, CHR 0xE2, CHR 0xE3, CHR 0xE4, CHR 0xE5, CHR 0xE6, CHR 0xE7,
      CHR 0xE8, CHR 0xE9, CHR 0xEA, CHR 0xEB, CHR 0xEC, CHR 0xED, CHR 0xEE, CHR 0xEF,
      CHR 0xF0, CHR 0xF1, CHR 0xF2, CHR 0xF3, CHR 0xF4, CHR 0xF5, CHR 0xF6, CHR 0xF8,
      CHR 0xF9, CHR 0xFA, CHR 0xFB, CHR 0xFC, CHR 0xFD, CHR 0xFE]"

definition latin1ToLowerCase :: "string \<Rightarrow> string" where
  "latin1ToLowerCase s =
     map (\<lambda>c. case map_of (zip latin1Capitals latin1Smalls) c of None \<Rightarrow> c | Some l \<Rightarrow> l) s"

text \<open>
  The scenario of the specification: Wednesday 2025-01-15 (day 20103), not a holiday, no
  closure, no appointment; four patients in care, the last one entered in capitals with
  an accented letter.
\<close>

definition rossi :: patient where
  "rossi = \<lparr>p_id = ''p1'', p_nome = ''Mario'', p_cognome = ''Rossi'', p_tipo = ''PICC'',
            p_status = ''in_cura''\<rparr>"

definition bianchi :: patient where
  "bianchi = \<lparr>p_id = ''p2'', p_nome = ''Rosa'', p_cognome = ''Bianchi'', p_tipo = ''MED'',
              p_status = ''in_cura''\<rparr>"

definition verdi :: patient where
  "verdi = \<lparr>p_id = ''p3'', p_nome = ''Anna'', p_cognome = ''Verdi'', p_tipo = ''PICC_MED'',
            p_status = ''in_cura''\<rparr>"

definition greco :: patient where
  "greco = \<lparr>p_id = ''p4'', p_nome = ''NICOL'' @ [CHR 0xD2], p_cognome = ''GRECO'',
            p_tipo = ''PICC'', p_status = ''in_cura''\<rparr>"

definition wednesday :: agenda_state where
  "wednesday =
     \<lparr>currentDate = 20103, holidays = [''2025-01-01'', ''2025-01-06''], appointments = [],
      patients = [rossi, bianchi, verdi, greco], closedSlots = [], reopenDialogOpen = False,
      dialogOpen = False, selectedSlot = None, searchQuery = [], filteredPatients = [],
      selectedPatient = None, selectedPrestazioni = []\<rparr>"

text \<open>A PICC appointment at 09:00 of that day.\<close>

definition piccAtNine :: "string \<Rightarrow> string \<Rightarrow> appointment" where
  "piccAtNine i pid =
     \<lparr>a_id = i, a_patient_id = pid, a_data = ''2025-01-15'', a_ora = ''09:00'', a_tipo = ''PICC'',
      a_prestazioni = [''medicazione_semplice''], a_stato = ''da_fare''\<rparr>"

text \<open>
  The same day while the list on screen still holds the answer to the request for the
  day after: two PICC appointments at 09:00 of 2025-01-16.
\<close>

definition staleWednesday :: agenda_state where
  "staleWednesday =
     wednesday\<lparr>appointments :=
       [(piccAtNine ''a1'' ''p1'')\<lparr>a_data := ''2025-01-16''\<rparr>,
        (piccAtNine ''a2'' ''p3'')\<lparr>a_data := ''2025-01-16''\<rparr>]\<rparr>"

text \<open>The booking dialog of the PICC slot at 09:00 with \<open>nicol\<close> and the small
  accented o typed in the search box.\<close>

definition searching :: agenda_state where
  "searching = wednesday\<lparr>selectedSlot := Some \<lparr>slot_ora = ''09:00'', slot_tipo = ''PICC''\<rparr>,
                          searchQuery := ''nicol'' @ [CHR 0xF2]\<rparr>"

text \<open>A roster with different patients under each tab.\<close>

definition roster :: all_patients where
  "roster =
     \<lparr>in_cura = [rossi],
      dimesso = [bianchi\<lparr>p_status := ''dimesso''\<rparr>],
      sospeso = [bianchi\<lparr>p_status := ''sospeso''\<rparr>, verdi\<lparr>p_status := ''sospeso''\<rparr>,
                 greco\<lparr>p_status := ''sospeso''\<rparr>]\<rparr>"

text \<open>The status dialog for a discharge: without a reason, and with the reason
  \<open>guarito\<close>.\<close>

definition dischargeNoReason :: status_form where
  "dischargeNoReason =
     \<lparr>selectedPatientForStatus = Some rossi, selectedPatients = [''p1'', ''p3''],
      newStatus = ''dimesso'', statusReason = [], statusNotes = []\<rparr>"

definition dischargeHealed :: status_form where
  "dischargeHealed =
     \<lparr>selectedPatientForStatus = Some rossi, selectedPatients = [''p1'', ''p3''],
      newStatus = ''dimesso'', statusReason = ''guarito'', statusNotes = []\<rparr>"

section \<open>The closure rule\<close>

lemma closedSlotMatches_wildcard: "closedSlotMatches ora tipo cs = wildcardRule ora tipo cs"
  unfolding closedSlotMatches_def wildcardRule_def by (cases "cs_ora cs"; cases "cs_tipo cs") auto

lemma isSlotClosed_set: "isSlotClosed L ora tipo = (\<exists>r \<in> set L. wildcardRule ora tipo r)"
  by (simp add: isSlotClosed_def list_ex_iff closedSlotMatches_wildcard)

text \<open>
  C1. For every list of closure records and every (hour, type), \<open>isSlotClosed\<close> is true
  exactly when some record of the list has its hour unset or equal to the hour and its
  type unset or equal to the type. In particular: a record with both fields unset closes
  every (hour, type); a record with no hour and type \<open>t0\<close> closes \<open>t0\<close> at every
  hour, and by itself closes no other type; a record with hour \<open>h0\<close> and no type closes
  every type at \<open>h0\<close>, and by itself no other hour.
\<close>

theorem isSlotClosed_wildcard:
  "(isSlotClosed L hour type \<longleftrightarrow>
      (\<exists>r \<in> set L. (falsy (cs_ora r) \<or> cs_ora r = Some hour)
                   \<and> (falsy (cs_tipo r) \<or> cs_tipo r = Some type)))
   \<and> (\<forall>r \<in> set L. falsy (cs_ora r) \<and> falsy (cs_tipo r) \<longrightarrow> (\<forall>h t. isSlotClosed L h t))
   \<and> (\<forall>r \<in> set L. falsy (cs_ora r) \<and> cs_tipo r = Some t0 \<longrightarrow> (\<forall>h. isSlotClosed L h t0))
   \<and> (\<forall>r. falsy (cs_ora r) \<and> cs_tipo r = Some t0 \<and> t0 \<noteq> [] \<longrightarrow>
          (\<forall>h t. isSlotClosed [r] h t \<longleftrightarrow> t = t0))
   \<and> (\<forall>r \<in> set L. cs_ora r = Some h0 \<and> falsy (cs_tipo r) \<longrightarrow> (\<forall>t. isSlotClosed L h0 t))
   \<and> (\<forall>r. cs_ora r = Some h0 \<and> h0 \<noteq> [] \<and> falsy (cs_tipo r) \<longrightarrow>
          (\<forall>h t. isSlotClosed [r] h t \<longleftrightarrow> h = h0))"
proof (intro conjI)
  show "isSlotClosed L hour type \<longleftrightarrow>
      (\<exists>r \<in> set L. (falsy (cs_ora r) \<or> cs_ora r = Some hour)
                   \<and> (falsy (cs_tipo r) \<or> cs_tipo r = Some type))"
    by (simp add: isSlotClosed_set wildcardRule_def)
  show "\<forall>r \<in> set L. falsy (cs_ora r) \<and> falsy (cs_tipo r) \<longrightarrow> (\<forall>h t. isSlotClosed L h t)"
    unfolding isSlotClosed_set wildcardRule_def by blast
  show "\<forall>r \<in> set L. falsy (cs_ora r) \<and> cs_tipo r = Some t0 \<longrightarrow> (\<forall>h. isSlotClosed L h t0)"
    unfolding isSlotClosed_set wildcardRule_def by blast
  show "\<forall>r. falsy (cs_ora r) \<and> cs_tipo r = Some t0 \<and> t0 \<noteq> [] \<longrightarrow>
          (\<forall>h t. isSlotClosed [r] h t \<longleftrightarrow> t = t0)"
    by (auto simp: isSlotClosed_set wildcardRule_def)
  show "\<forall>r \<in> set L. cs_ora r = Some h0 \<and> falsy (cs_tipo r) \<longrightarrow> (\<forall>t. isSlotClosed L h0 t)"
    unfolding isSlotClosed_set wildcardRule_def by blast
  show "\<forall>r. cs_ora r = Some h0 \<and> h0 \<noteq> [] \<and> falsy (cs_tipo r) \<longrightarrow>
          (\<forall>h t. isSlotClosed [r] h t \<longleftrightarrow> h = h0)"
    by (auto simp: isSlotClosed_set wildcardRule_def)
qed

text \<open>
  The scenario of the specification: the record \<open>{ora: null, tipo: "PICC"}\<close> closes PICC
  at 09:00 and leaves MED open; an hour-only record closes MED at its hour only; a
  whole-day record closes everything.
\<close>

theorem isSlotClosed_wildcard_witness:
  "isSlotClosed [\<lparr>cs_id = ''c1'', cs_ora = None, cs_tipo = Some ''PICC'', cs_motivo = ''Chiuso''\<rparr>]
     ''09:00'' ''PICC''
   \<and> \<not> isSlotClosed [\<lparr>cs_id = ''c1'', cs_ora = None, cs_tipo = Some ''PICC'', cs_motivo = ''Chiuso''\<rparr>]
     ''09:00'' ''MED''
   \<and> isSlotClosed [\<lparr>cs_id = ''c2'', cs_ora = Some ''10:30'', cs_tipo = None, cs_motivo = ''Chiuso''\<rparr>]
     ''10:30'' ''MED''
   \<and> \<not> isSlotClosed [\<lparr>cs_id = ''c2'', cs_ora = Some ''10:30'', cs_tipo = None, cs_motivo = ''Chiuso''\<rparr>]
     ''11:00'' ''MED''
   \<and> isSlotClosed [\<lparr>cs_id = ''c3'', cs_ora = None, cs_tipo = None, cs_motivo = ''Ferie''\<rparr>]
     ''16:30'' ''MED''"
  using isSlotClosed_wildcard
          [of "[\<lparr>cs_id = ''c1'', cs_ora = None, cs_tipo = Some ''PICC'', cs_motivo = ''Chiuso''\<rparr>]"
              "''09:00''" "''PICC''" "''PICC''" "''10:30''"]
        isSlotClosed_wildcard
          [of "[\<lparr>cs_id = ''c2'', cs_ora = Some ''10:30'', cs_tipo = None, cs_motivo = ''Chiuso''\<rparr>]"
              "''10:30''" "''MED''" "''PICC''" "''10:30''"]
        isSlotClosed_wildcard
          [of "[\<lparr>cs_id = ''c3'', cs_ora = None, cs_tipo = None, cs_motivo = ''Ferie''\<rparr>]"
              "''16:30''" "''MED''" "''PICC''" "''10:30''"]
  by simp

text \<open>
  C6. \<open>getClosedSlotInfo\<close> returns the first record of the list, in the list's order,
  that matches the (hour, type) under the wildcard rule: the record at the least index
  whose record matches. It returns none exactly when no record matches, which is exactly
  when \<open>isSlotClosed\<close> is false. The result is a function of the list and the keys
  alone.
\<close>

theorem getClosedSlotInfo_first_match:
  "(getClosedSlotInfo L hour type = None \<longleftrightarrow> \<not> (\<exists>r \<in> set L. wildcardRule hour type r))
   \<and> (\<forall>r. getClosedSlotInfo L hour type = Some r \<longleftrightarrow>
         (\<exists>i < length L. L ! i = r \<and> wildcardRule hour type r
                        \<and> (\<forall>j < i. \<not> wildcardRule hour type (L ! j))))
   \<and> (isSlotClosed L hour type \<longleftrightarrow> getClosedSlotInfo L hour type \<noteq> None)"
proof (intro conjI allI)
  show "getClosedSlotInfo L hour type = None \<longleftrightarrow> \<not> (\<exists>r \<in> set L. wildcardRule hour type r)"
    by (auto simp: getClosedSlotInfo_def find_None_iff closedSlotMatches_wildcard)
  show "getClosedSlotInfo L hour type = Some r \<longleftrightarrow>
         (\<exists>i < length L. L ! i = r \<and> wildcardRule hour type r
                        \<and> (\<forall>j < i. \<not> wildcardRule hour type (L ! j)))" for r
    unfolding getClosedSlotInfo_def find_Some_iff closedSlotMatches_wildcard by auto
  show "isSlotClosed L hour type \<longleftrightarrow> getClosedSlotInfo L hour type \<noteq> None"
    by (auto simp: getClosedSlotInfo_def find_None_iff isSlotClosed_def list_ex_iff)
qed

text \<open>Three records match PICC at 10:30; the one shown is the first of the list.\<close>

theorem getClosedSlotInfo_first_match_witness:
  "getClosedSlotInfo
     [\<lparr>cs_id = ''c1'', cs_ora = Some ''10:30'', cs_tipo = None, cs_motivo = ''Riunione''\<rparr>,
      \<lparr>cs_id = ''c2'', cs_ora = None, cs_tipo = Some ''PICC'', cs_motivo = ''Corso''\<rparr>,
      \<lparr>cs_id = ''c3'', cs_ora = Some ''10:30'', cs_tipo = Some ''PICC'', cs_motivo = ''Guasto''\<rparr>]
     ''10:30'' ''PICC''
   = Some \<lparr>cs_id = ''c1'', cs_ora = Some ''10:30'', cs_tipo = None, cs_motivo = ''Riunione''\<rparr>
   \<and> getClosedSlotInfo
     [\<lparr>cs_id = ''c1'', cs_ora = Some ''10:30'', cs_tipo = None, cs_motivo = ''Riunione''\<rparr>,
      \<lparr>cs_id = ''c2'', cs_ora = None, cs_tipo = Some ''PICC'', cs_motivo = ''Corso''\<rparr>,
      \<lparr>cs_id = ''c3'', cs_ora = Some ''10:30'', cs_tipo = Some ''PICC'', cs_motivo = ''Guasto''\<rparr>]
     ''09:00'' ''MED''
   = None"
proof -
  let ?L = "[\<lparr>cs_id = ''c1'', cs_ora = Some ''10:30'', cs_tipo = None, cs_motivo = ''Riunione''\<rparr>,
      \<lparr>cs_id = ''c2'', cs_ora = None, cs_tipo = Some ''PICC'', cs_motivo = ''Corso''\<rparr>,
      \<lparr>cs_id = ''c3'', cs_ora = Some ''10:30'', cs_tipo = Some ''PICC'', cs_motivo = ''Guasto''\<rparr>]"
  have a: "getClosedSlotInfo ?L ''09:00'' ''MED'' = None"
    using getClosedSlotInfo_first_match [of ?L "''09:00''" "''MED''"]
    by (simp add: wildcardRule_def)
  have "\<exists>i < length ?L. ?L ! i = ?L ! 0 \<and> wildcardRule ''10:30'' ''PICC'' (?L ! 0)
          \<and> (\<forall>j < i. \<not> wildcardRule ''10:30'' ''PICC'' (?L ! j))"
    by (intro exI[of _ 0]) (simp add: wildcardRule_def)
  then have b: "getClosedSlotInfo ?L ''10:30'' ''PICC'' = Some (?L ! 0)"
    using getClosedSlotInfo_first_match [of ?L "''10:30''" "''PICC''"] by blast
  show ?thesis using a b by simp
qed

lemma reopenSlot_closeSlot:
  assumes "newId \<notin> cs_id ` set L"
  shows "reopenSlot (closeSlot L newId hour type motivo) newId = L"
proof -
  have "filter (\<lambda>cs. cs_id cs \<noteq> newId) L = L"
    using assms by (induction L) auto
  then show ?thesis by (simp add: reopenSlot_def closeSlot_def)
qed

text \<open>
  C5. Round trip of closures. For every list \<open>L\<close> of closure records and every
  (hour, type) that \<open>L\<close> leaves open: appending a closure record for exactly that
  (hour, type), under an id no record of \<open>L\<close> has, closes the slot; deleting that record
  again gives a list on which \<open>isSlotClosed\<close> agrees with \<open>L\<close> at every (hour, type),
  so the slot is open again and every other closure is as it was.
\<close>

theorem close_reopen_round_trip:
  assumes "\<not> isSlotClosed L hour type" and "newId \<notin> cs_id ` set L"
  shows "isSlotClosed (closeSlot L newId hour type motivo) hour type
       \<and> (\<forall>h t. isSlotClosed (reopenSlot (closeSlot L newId hour type motivo) newId) h t
                  = isSlotClosed L h t)
       \<and> \<not> isSlotClosed (reopenSlot (closeSlot L newId hour type motivo) newId) hour type"
proof -
  have "isSlotClosed (closeSlot L newId hour type motivo) hour type"
    by (simp add: isSlotClosed_set closeSlot_def wildcardRule_def)
  moreover have "reopenSlot (closeSlot L newId hour type motivo) newId = L"
    using assms(2) by (rule reopenSlot_closeSlot)
  ultimately show ?thesis using assms(1) by simp
qed

text \<open>With 10:30 closed for both types, PICC at 09:00 is closed and reopened; 10:30
  stays closed.\<close>

theorem close_reopen_round_trip_witness:
  "\<not> isSlotClosed [\<lparr>cs_id = ''c1'', cs_ora = Some ''10:30'', cs_tipo = None, cs_motivo = ''Riunione''\<rparr>]
       ''09:00'' ''PICC''
   \<and> ''c2'' \<notin> cs_id ` set [\<lparr>cs_id = ''c1'', cs_ora = Some ''10:30'', cs_tipo = None, cs_motivo = ''Riunione''\<rparr>]
   \<and> isSlotClosed
       (closeSlot [\<lparr>cs_id = ''c1'', cs_ora = Some ''10:30'', cs_tipo = None, cs_motivo = ''Riunione''\<rparr>]
          ''c2'' ''09:00'' ''PICC'' ''Chiuso'')
       ''09:00'' ''PICC''
   \<and> \<not> isSlotClosed
       (reopenSlot
          (closeSlot [\<lparr>cs_id = ''c1'', cs_ora = Some ''10:30'', cs_tipo = None, cs_motivo = ''Riunione''\<rparr>]
             ''c2'' ''09:00'' ''PICC'' ''Chiuso'')
          ''c2'')
       ''09:00'' ''PICC''
   \<and> isSlotClosed
       (reopenSlot
          (closeSlot [\<lparr>cs_id = ''c1'', cs_ora = Some ''10:30'', cs_tipo = None, cs_motivo = ''Riunione''\<rparr>]
             ''c2'' ''09:00'' ''PICC'' ''Chiuso'')
          ''c2'')
       ''10:30'' ''MED''"
proof -
  let ?L = "[\<lparr>cs_id = ''c1'', cs_ora = Some ''10:30'', cs_tipo = None, cs_motivo = ''Riunione''\<rparr>]"
  have h1: "\<not> isSlotClosed ?L ''09:00'' ''PICC''"
    by (simp add: isSlotClosed_def closedSlotMatches_def)
  have h2: "''c2'' \<notin> cs_id ` set ?L" by simp
  have h3: "isSlotClosed ?L ''10:30'' ''MED''"
    by (simp add: isSlotClosed_def closedSlotMatches_def)
  show ?thesis
    using h1 h2 h3 close_reopen_round_trip [OF h1 h2, of "''Chiuso''"] by blast
qed

section \<open>Appointments of a slot\<close>

text \<open>
  C3, as the code has it. \<open>getAppointmentsForSlot\<close> returns exactly the appointments of
  the list whose hour and type equal the given keys, in the order of the list and as
  often as they occur there. The date is not compared: the list is the one fetched for
  the day on screen. Whenever every appointment of the list carries the given date, the
  result is the exact filter by all three keys.
\<close>

theorem getAppointmentsForSlot_two_keys:
  "set (getAppointmentsForSlot apts ora tipo) = {a \<in> set apts. a_ora a = ora \<and> a_tipo a = tipo}
   \<and> subseq (getAppointmentsForSlot apts ora tipo) apts
   \<and> (\<forall>a. count_list (getAppointmentsForSlot apts ora tipo) a
           = (if a_ora a = ora \<and> a_tipo a = tipo then count_list apts a else 0))
   \<and> ((\<forall>a \<in> set apts. a_data a = dateStr) \<longrightarrow>
        getAppointmentsForSlot apts ora tipo = appointmentsForSlot_spec dateStr ora tipo apts)"
proof (intro conjI allI impI)
  show "set (getAppointmentsForSlot apts ora tipo) = {a \<in> set apts. a_ora a = ora \<and> a_tipo a = tipo}"
    by (simp add: getAppointmentsForSlot_def)
  show "subseq (getAppointmentsForSlot apts ora tipo) apts"
    by (simp add: getAppointmentsForSlot_def)
  show "count_list (getAppointmentsForSlot apts ora tipo) a
           = (if a_ora a = ora \<and> a_tipo a = tipo then count_list apts a else 0)" for a
    unfolding getAppointmentsForSlot_def by (induction apts) auto
  show "getAppointmentsForSlot apts ora tipo = appointmentsForSlot_spec dateStr ora tipo apts"
    if "\<forall>a \<in> set apts. a_data a = dateStr"
    unfolding getAppointmentsForSlot_def appointmentsForSlot_spec_def
    using that by (intro filter_cong) auto
qed

text \<open>A day's list with a PICC and a MED appointment at 09:00.\<close>

theorem getAppointmentsForSlot_two_keys_witness:
  "list_all (\<lambda>a. a_data a = ''2025-01-15'')
     [piccAtNine ''a1'' ''p1'', (piccAtNine ''a2'' ''p2'')\<lparr>a_tipo := ''MED''\<rparr>]
   \<and> getAppointmentsForSlot
       [piccAtNine ''a1'' ''p1'', (piccAtNine ''a2'' ''p2'')\<lparr>a_tipo := ''MED''\<rparr>] ''09:00'' ''PICC''
     = appointmentsForSlot_spec ''2025-01-15'' ''09:00'' ''PICC''
       [piccAtNine ''a1'' ''p1'', (piccAtNine ''a2'' ''p2'')\<lparr>a_tipo := ''MED''\<rparr>]
   \<and> getAppointmentsForSlot
       [piccAtNine ''a1'' ''p1'', (piccAtNine ''a2'' ''p2'')\<lparr>a_tipo := ''MED''\<rparr>] ''09:00'' ''PICC''
     = [piccAtNine ''a1'' ''p1'']"
proof -
  let ?L = "[piccAtNine ''a1'' ''p1'', (piccAtNine ''a2'' ''p2'')\<lparr>a_tipo := ''MED''\<rparr>]"
  have h: "\<forall>a \<in> set ?L. a_data a = ''2025-01-15''" by (simp add: piccAtNine_def)
  have e: "getAppointmentsForSlot ?L ''09:00'' ''PICC'' = [piccAtNine ''a1'' ''p1'']"
    by (simp add: getAppointmentsForSlot_def piccAtNine_def)
  from getAppointmentsForSlot_two_keys [of ?L "''09:00''" "''PICC''" "''2025-01-15''"] h
  have "getAppointmentsForSlot ?L ''09:00'' ''PICC''
        = appointmentsForSlot_spec ''2025-01-15'' ''09:00'' ''PICC'' ?L"
    by blast
  moreover have "list_all (\<lambda>a. a_data a = ''2025-01-15'') ?L" by (simp add: piccAtNine_def)
  ultimately show ?thesis using e by (intro conjI)
qed

text \<open>
  The three-key reading fails on a list that holds an appointment of another day: asked
  for PICC at 09:00 while the day is 2025-01-15, the page's function returns the
  appointment of 2025-01-16, the exact filter by date, hour and type does not.
\<close>

theorem appointmentsForSlot_three_keys_counterexample:
  "getAppointmentsForSlot
     [\<lparr>a_id = ''a1'', a_patient_id = ''p1'', a_data = ''2025-01-16'', a_ora = ''09:00'',
       a_tipo = ''PICC'', a_prestazioni = [''medicazione_semplice''], a_stato = ''da_fare''\<rparr>]
     ''09:00'' ''PICC''
   \<noteq> appointmentsForSlot_spec ''2025-01-15'' ''09:00'' ''PICC''
     [\<lparr>a_id = ''a1'', a_patient_id = ''p1'', a_data = ''2025-01-16'', a_ora = ''09:00'',
       a_tipo = ''PICC'', a_prestazioni = [''medicazione_semplice''], a_stato = ''da_fare''\<rparr>]"
  by (simp add: getAppointmentsForSlot_def appointmentsForSlot_spec_def)

section \<open>The next working day\<close>

text \<open>
  C7. \<open>getNextWorkingDay\<close> returns a working day unchanged: for every date that is
  neither a weekend day nor in the holiday list, the result is that date.
\<close>

theorem getNextWorkingDay_working_day:
  assumes "\<not> isWeekend d" and "format_date d \<notin> set holidayList"
  shows "getNextWorkingDay d holidayList = Some d"
  unfolding getNextWorkingDay_def
  by (subst skipNonWorkingDays.simps) (simp add: assms)

text \<open>Wednesday 2025-01-15, with New Year and Epiphany as holidays.\<close>

theorem getNextWorkingDay_working_day_witness:
  "\<not> isWeekend 20103 \<and> format_date 20103 \<notin> set [''2025-01-01'', ''2025-01-06'']
   \<and> getNextWorkingDay 20103 [''2025-01-01'', ''2025-01-06''] = Some 20103"
proof -
  have h1: "\<not> isWeekend 20103" by code_simp
  have h2: "format_date 20103 \<notin> set [''2025-01-01'', ''2025-01-06'']" by code_simp
  show ?thesis
    using h1 h2 getNextWorkingDay_working_day [OF h1 h2] by blast
qed

subsection \<open>Termination\<close>

text \<open>
  A holiday list is finite, so its strings have a greatest length; the year of a day
  grows without bound, and with it the length of the formatted date. Far enough ahead no
  date is in the list, and every seven days hold a Monday.
\<close>

lemma digits_nonempty: "0 < length (digits n)"
  by (subst digits.simps) simp

lemma digits_length: "10 ^ k \<le> n \<Longrightarrow> k < length (digits n)"
proof (induction k arbitrary: n)
  case 0
  show ?case by (rule digits_nonempty)
next
  case (Suc k)
  from Suc.prems have ten: "10 * 10 ^ k \<le> n" by simp
  have "(1::nat) \<le> 10 ^ k" by simp
  then have "(10::nat) \<le> 10 * 10 ^ k" by simp
  with ten have big: "\<not> n < 10" by linarith
  from ten have "10 ^ k \<le> n div 10" by (simp add: less_eq_div_iff_mult_less_eq mult.commute)
  then have "k < length (digits (n div 10))" using Suc.IH by blast
  moreover have "digits n = digits (n div 10) @ [''0123456789'' ! (n mod 10)]"
    using big by (subst digits.simps) simp
  ultimately show ?case by simp
qed

lemma civil_year_lower: "400 * ((z + 719468) div 146097) \<le> fst (civil z)"
proof -
  define era where "era = (z + 719468) div 146097"
  define doe where "doe = (z + 719468) mod 146097"
  define yoe where "yoe = (doe - doe div 1460 + doe div 36524 - doe div 146096) div 365"
  define doy where "doy = doe - (365 * yoe + yoe div 4 - yoe div 100)"
  define mp where "mp = (5 * doy + 2) div 153"
  define m where "m = (if mp < 10 then mp + 3 else mp - 9)"
  define c :: int where "c = (if m \<le> 2 then 1 else 0)"
  have eq: "fst (civil z) = yoe + era * 400 + c"
    unfolding civil_def Let_def fst_conv c_def m_def mp_def doy_def yoe_def doe_def era_def
    by (rule refl)
  have d0: "0 \<le> doe" by (simp add: doe_def)
  have a: "doe div 1460 \<le> doe" using zdiv_mono2[of doe 1 1460] d0 by simp
  have b: "doe div 146096 \<le> doe div 36524" using zdiv_mono2[of doe 36524 146096] d0 by simp
  have "0 \<le> doe - doe div 1460 + doe div 36524 - doe div 146096" using a b by linarith
  then have y0: "0 \<le> yoe"
    unfolding yoe_def by (simp add: pos_imp_zdiv_nonneg_iff)
  have c0: "0 \<le> c" by (simp add: c_def)
  show ?thesis unfolding eq era_def[symmetric] using y0 c0 by linarith
qed

lemma format_date_length:
  assumes "0 < fst (civil z)"
  shows "length (digits (nat (fst (civil z)))) < length (format_date z)"
proof -
  obtain y m d where c: "civil z = (y, m, d)" by (cases "civil z") auto
  with assms have "0 < y" by simp
  then show ?thesis
    by (simp add: format_date_def c addLeadingZeros_def)
qed

lemma format_date_long:
  assumes "146097 * 10 ^ k \<le> z + 719468"
  shows "k < length (format_date z)"
proof -
  have "(146097::int) * 10 ^ k div 146097 \<le> (z + 719468) div 146097"
    using assms by (rule zdiv_mono1) simp
  then have era: "(10::int) ^ k \<le> (z + 719468) div 146097" by simp
  have one: "(1::int) \<le> 10 ^ k" by simp
  with era have "10 ^ k \<le> 400 * ((z + 719468) div 146097)" by linarith
  with civil_year_lower[of z] have y: "(10::int) ^ k \<le> fst (civil z)" by linarith
  with one have pos: "0 < fst (civil z)" by linarith
  have "int (10 ^ k) \<le> fst (civil z)" using y by simp
  then have "10 ^ k \<le> nat (fst (civil z))" by linarith
  then have "k < length (digits (nat (fst (civil z))))" by (rule digits_length)
  with format_date_length[OF pos] show ?thesis by linarith
qed

lemma length_le_concat: "s \<in> set hs \<Longrightarrow> length s \<le> length (concat hs)"
  by (induction hs) auto

lemma late_day_not_listed:
  assumes "146097 * 10 ^ length (concat hs) \<le> z + 719468"
  shows "format_date z \<notin> set hs"
proof
  assume "format_date z \<in> set hs"
  then have "length (format_date z) \<le> length (concat hs)" by (rule length_le_concat)
  with format_date_long[OF assms] show False by simp
qed

lemma monday_ahead: "\<exists>r. b \<le> r \<and> getDay r = 1"
proof -
  have "b \<le> b + (- b - 3) mod 7" by simp
  moreover have "getDay (b + (- b - 3) mod 7) = 1"
    unfolding getDay_def by presburger
  ultimately show ?thesis by blast
qed

lemma working_day_exists:
  "\<exists>r. d \<le> r \<and> \<not> isWeekend r \<and> format_date r \<notin> set hs"
proof -
  define b where "b = max d (146097 * 10 ^ length (concat hs))"
  obtain r where r: "b \<le> r" "getDay r = 1" using monday_ahead by blast
  have "146097 * 10 ^ length (concat hs) \<le> r + 719468" using r(1) by (simp add: b_def)
  then have "format_date r \<notin> set hs" by (rule late_day_not_listed)
  moreover have "\<not> isWeekend r" using r(2) by (simp add: isWeekend_def)
  moreover have "d \<le> r" using r(1) by (simp add: b_def)
  ultimately show ?thesis by blast
qed

lemma skipNonWorkingDays_steps:
  assumes "\<forall>j < k. isWeekend (d + int j) \<or> format_date (d + int j) \<in> set hs"
      and "\<not> isWeekend (d + int k)" and "format_date (d + int k) \<notin> set hs"
  shows "skipNonWorkingDays d hs = Some (d + int k)"
  using assms
proof (induction k arbitrary: d)
  case 0
  then show ?case by (subst skipNonWorkingDays.simps) simp
next
  case (Suc k)
  have skip: "isWeekend d \<or> format_date d \<in> set hs"
    using Suc.prems(1)[rule_format, of 0] by simp
  have "\<forall>j < k. isWeekend (d + 1 + int j) \<or> format_date (d + 1 + int j) \<in> set hs"
  proof (intro allI impI)
    fix j assume "j < k"
    then have "Suc j < Suc k" by simp
    from Suc.prems(1)[rule_format, OF this] show
      "isWeekend (d + 1 + int j) \<or> format_date (d + 1 + int j) \<in> set hs"
      by (simp add: algebra_simps)
  qed
  moreover have "\<not> isWeekend (d + 1 + int k)" "format_date (d + 1 + int k) \<notin> set hs"
    using Suc.prems(2,3) by (simp_all add: algebra_simps)
  ultimately have "skipNonWorkingDays (d + 1) hs = Some (d + 1 + int k)"
    by (rule Suc.IH)
  then show ?case
    using skip by (subst skipNonWorkingDays.simps) (simp add: addDays_def algebra_simps)
qed

text \<open>
  C4. For every starting date and every (finite) holiday list, \<open>getNextWorkingDay\<close>
  terminates: it returns a date \<open>r\<close>. That date is on or after the starting date, is
  neither a weekend day nor listed in the holiday list, and is the first such day: every
  day from the starting date up to the day before \<open>r\<close> is a weekend day or is listed.
\<close>

theorem getNextWorkingDay_first_working_day:
  "\<exists>r. getNextWorkingDay d holidayList = Some r \<and> d \<le> r
       \<and> \<not> isWeekend r \<and> format_date r \<notin> set holidayList
       \<and> (\<forall>k. d \<le> k \<and> k < r \<longrightarrow> isWeekend k \<or> format_date k \<in> set holidayList)"
proof -
  define W where "W = (\<lambda>n::nat. \<not> isWeekend (d + int n) \<and> format_date (d + int n) \<notin> set holidayList)"
  obtain r0 where r0: "d \<le> r0" "\<not> isWeekend r0" "format_date r0 \<notin> set holidayList"
    using working_day_exists by blast
  have "W (nat (r0 - d))" using r0 by (simp add: W_def)
  then have ex: "\<exists>n. W n" by blast
  define k where "k = (LEAST n. W n)"
  have Wk: "W k" unfolding k_def using ex by (rule LeastI_ex)
  have least: "\<not> W j" if "j < k" for j
    using that not_less_Least unfolding k_def by blast
  have before: "\<forall>j < k. isWeekend (d + int j) \<or> format_date (d + int j) \<in> set holidayList"
    using least by (auto simp: W_def)
  have res: "getNextWorkingDay d holidayList = Some (d + int k)"
    unfolding getNextWorkingDay_def
    using before Wk by (intro skipNonWorkingDays_steps) (auto simp: W_def)
  have between: "isWeekend i \<or> format_date i \<in> set holidayList" if "d \<le> i" "i < d + int k" for i
  proof -
    have "nat (i - d) < k" using that by linarith
    from before[rule_format, OF this] that(1) show ?thesis by simp
  qed
  show ?thesis
    using res Wk between by (intro exI[of _ "d + int k"]) (auto simp: W_def)
qed

text \<open>
  From Saturday 2025-01-18 (day 20106), with Monday 2025-01-20 a holiday: Saturday and
  Sunday are skipped as a weekend, Monday as a holiday, and Tuesday 2025-01-21 (day
  20109) is returned.
\<close>

theorem getNextWorkingDay_first_working_day_witness:
  "getNextWorkingDay 20106 [''2025-01-20''] = Some 20109
   \<and> isWeekend 20106 \<and> isWeekend 20107 \<and> format_date 20108 \<in> set [''2025-01-20'']
   \<and> \<not> isWeekend 20109 \<and> format_date 20109 \<notin> set [''2025-01-20'']"
proof -
  have sat: "isWeekend 20106" and sun: "isWeekend 20107"
    and mon: "format_date 20108 = ''2025-01-20''"
    and tue: "\<not> isWeekend 20109" "format_date 20109 = ''2025-01-21''"
    by code_simp+
  obtain r where r: "getNextWorkingDay 20106 [''2025-01-20''] = Some r" "20106 \<le> r"
      "\<not> isWeekend r" "format_date r \<notin> set [''2025-01-20'']"
      "\<forall>k. 20106 \<le> k \<and> k < r \<longrightarrow> isWeekend k \<or> format_date k \<in> set [''2025-01-20'']"
    using getNextWorkingDay_first_working_day [of 20106 "[''2025-01-20'']"] by blast
  have "r \<noteq> 20106" "r \<noteq> 20107" "r \<noteq> 20108"
    using r(3,4) sat sun mon by auto
  moreover have "\<not> 20109 < r"
    using r(5)[rule_format, of 20109] tue by auto
  ultimately have "r = 20109" using r(2) by linarith
  with r(1) show ?thesis using sat sun mon tue by simp
qed

section \<open>The slot click\<close>

lemma canBook_spec_same_day:
  assumes "\<forall>a \<in> set (appointments s). a_data a = format_date (currentDate s)"
  shows "canBook_spec (currentDate s) ora tipo (holidays s) (closedSlots s) (appointments s) =
     (if isHoliday (holidays s) (currentDate s) then Rejected NON_WORKING_DAY
      else if isSlotClosed (closedSlots s) ora tipo then Rejected SLOT_CLOSED
      else if length (getAppointmentsForSlot (appointments s) ora tipo) \<ge> 2 then Rejected SLOT_FULL
      else Ok)"
proof -
  have "appointmentsForSlot_spec (format_date (currentDate s)) ora tipo (appointments s)
        = getAppointmentsForSlot (appointments s) ora tipo"
    unfolding getAppointmentsForSlot_def appointmentsForSlot_spec_def
    using assms by (intro filter_cong) auto
  then show ?thesis
    by (simp add: canBook_spec_def isHoliday_def isSlotClosed_def
          closedSlotMatches_wildcard[abs_def] Let_def)
qed

text \<open>
  C2, as the code has it. For every day state and every (hour, type), the slot click
  applies three checks in this order. On a weekend or holiday it returns at once and
  changes nothing. Otherwise, on a slot that some closure record closes under the
  wildcard rule, it opens the reopen dialog and nothing else. Otherwise, when the list
  on screen holds two or more appointments with that hour and type, it shows the "slot
  full" error and changes nothing, so the click never opens a third booking for them;
  the date of the appointments is not compared, the list being the one fetched for the
  day on screen. Otherwise it opens the booking dialog for the slot. Whenever every
  appointment of the list carries the current date, the outcome is the one the
  specification's \<open>canBook\<close> prescribes.
\<close>

theorem handleSlotClick_gate:
  "handleSlotClick s ora tipo =
     (if isWeekend (currentDate s) \<or> format_date (currentDate s) \<in> set (holidays s) then (s, [])
      else if \<exists>r \<in> set (closedSlots s). wildcardRule ora tipo r
        then (s\<lparr>reopenDialogOpen := True\<rparr>, [])
      else if 2 \<le> length (filter (\<lambda>a. a_ora a = ora \<and> a_tipo a = tipo) (appointments s))
        then (s, [''Slot pieno (max 2 pazienti)''])
      else (s\<lparr>selectedSlot := Some \<lparr>slot_ora = ora, slot_tipo = tipo\<rparr>,
               searchQuery := [],
               selectedPatient := None,
               selectedPrestazioni := [],
               dialogOpen := True\<rparr>, []))
   \<and> ((\<forall>a \<in> set (appointments s). a_data a = format_date (currentDate s)) \<longrightarrow>
        handleSlotClick s ora tipo =
          (case canBook_spec (currentDate s) ora tipo (holidays s) (closedSlots s) (appointments s) of
             Rejected NON_WORKING_DAY \<Rightarrow> (s, [])
           | Rejected SLOT_CLOSED \<Rightarrow> (s\<lparr>reopenDialogOpen := True\<rparr>, [])
           | Rejected SLOT_FULL \<Rightarrow> (s, [''Slot pieno (max 2 pazienti)''])
           | Ok \<Rightarrow> (s\<lparr>selectedSlot := Some \<lparr>slot_ora = ora, slot_tipo = tipo\<rparr>,
                      searchQuery := [],
                      selectedPatient := None,
                      selectedPrestazioni := [],
                      dialogOpen := True\<rparr>, [])))
   \<and> (2 \<le> length (getAppointmentsForSlot (appointments s) ora tipo) \<longrightarrow>
        dialogOpen (fst (handleSlotClick s ora tipo)) = dialogOpen s
        \<and> selectedSlot (fst (handleSlotClick s ora tipo)) = selectedSlot s)"
proof (intro conjI impI)
  show "handleSlotClick s ora tipo =
     (if isWeekend (currentDate s) \<or> format_date (currentDate s) \<in> set (holidays s) then (s, [])
      else if \<exists>r \<in> set (closedSlots s). wildcardRule ora tipo r
        then (s\<lparr>reopenDialogOpen := True\<rparr>, [])
      else if 2 \<le> length (filter (\<lambda>a. a_ora a = ora \<and> a_tipo a = tipo) (appointments s))
        then (s, [''Slot pieno (max 2 pazienti)''])
      else (s\<lparr>selectedSlot := Some \<lparr>slot_ora = ora, slot_tipo = tipo\<rparr>,
               searchQuery := [],
               selectedPatient := None,
               selectedPrestazioni := [],
               dialogOpen := True\<rparr>, []))"
    by (simp add: handleSlotClick_def isHoliday_def isSlotClosed_set getAppointmentsForSlot_def
          Let_def)
  show "handleSlotClick s ora tipo =
          (case canBook_spec (currentDate s) ora tipo (holidays s) (closedSlots s) (appointments s) of
             Rejected NON_WORKING_DAY \<Rightarrow> (s, [])
           | Rejected SLOT_CLOSED \<Rightarrow> (s\<lparr>reopenDialogOpen := True\<rparr>, [])
           | Rejected SLOT_FULL \<Rightarrow> (s, [''Slot pieno (max 2 pazienti)''])
           | Ok \<Rightarrow> (s\<lparr>selectedSlot := Some \<lparr>slot_ora = ora, slot_tipo = tipo\<rparr>,
                      searchQuery := [],
                      selectedPatient := None,
                      selectedPrestazioni := [],
                      dialogOpen := True\<rparr>, []))"
    if "\<forall>a \<in> set (appointments s). a_data a = format_date (currentDate s)"
    by (simp add: canBook_spec_same_day[OF that] handleSlotClick_def Let_def)
  show "dialogOpen (fst (handleSlotClick s ora tipo)) = dialogOpen s"
    if "2 \<le> length (getAppointmentsForSlot (appointments s) ora tipo)"
    using that by (simp add: handleSlotClick_def Let_def)
  show "selectedSlot (fst (handleSlotClick s ora tipo)) = selectedSlot s"
    if "2 \<le> length (getAppointmentsForSlot (appointments s) ora tipo)"
    using that by (simp add: handleSlotClick_def Let_def)
qed

lemma wednesday_facts: "\<not> isWeekend 20103" "format_date 20103 = ''2025-01-15''"
  by code_simp+

text \<open>
  The scenarios of the specification on PICC at 09:00: the open Wednesday (the booking
  dialog opens); the same day with the record \<open>{ora: null, tipo: "PICC"}\<close> (the reopen
  dialog); with two appointments of the day in the slot (the error); and Saturday
  2025-01-18 (nothing happens).
\<close>

theorem handleSlotClick_gate_witness:
  "handleSlotClick wednesday ''09:00'' ''PICC''
     = (wednesday\<lparr>selectedSlot := Some \<lparr>slot_ora = ''09:00'', slot_tipo = ''PICC''\<rparr>,
                   dialogOpen := True\<rparr>, [])
   \<and> handleSlotClick
       (wednesday\<lparr>closedSlots :=
          [\<lparr>cs_id = ''c1'', cs_ora = None, cs_tipo = Some ''PICC'', cs_motivo = ''Chiuso''\<rparr>]\<rparr>)
       ''09:00'' ''PICC''
     = (wednesday\<lparr>closedSlots :=
          [\<lparr>cs_id = ''c1'', cs_ora = None, cs_tipo = Some ''PICC'', cs_motivo = ''Chiuso''\<rparr>],
          reopenDialogOpen := True\<rparr>, [])
   \<and> list_all (\<lambda>a. a_data a = format_date 20103) [piccAtNine ''a1'' ''p1'', piccAtNine ''a2'' ''p3'']
   \<and> 2 \<le> length (getAppointmentsForSlot [piccAtNine ''a1'' ''p1'', piccAtNine ''a2'' ''p3'']
                   ''09:00'' ''PICC'')
   \<and> handleSlotClick (wednesday\<lparr>appointments := [piccAtNine ''a1'' ''p1'', piccAtNine ''a2'' ''p3'']\<rparr>)
       ''09:00'' ''PICC''
     = (wednesday\<lparr>appointments := [piccAtNine ''a1'' ''p1'', piccAtNine ''a2'' ''p3'']\<rparr>,
        [''Slot pieno (max 2 pazienti)''])
   \<and> handleSlotClick (wednesday\<lparr>currentDate := 20106\<rparr>) ''09:00'' ''PICC''
     = (wednesday\<lparr>currentDate := 20106\<rparr>, [])"
proof -
  let ?closed = "wednesday\<lparr>closedSlots :=
          [\<lparr>cs_id = ''c1'', cs_ora = None, cs_tipo = Some ''PICC'', cs_motivo = ''Chiuso''\<rparr>]\<rparr>"
  let ?full = "wednesday\<lparr>appointments := [piccAtNine ''a1'' ''p1'', piccAtNine ''a2'' ''p3'']\<rparr>"
  let ?sat = "wednesday\<lparr>currentDate := 20106\<rparr>"
  have sat: "isWeekend 20106" by code_simp
  have 1: "canBook_spec 20103 ''09:00'' ''PICC'' [''2025-01-01'', ''2025-01-06''] [] [] = Ok"
    by (simp add: canBook_spec_def appointmentsForSlot_spec_def wednesday_facts)
  have 2: "canBook_spec 20103 ''09:00'' ''PICC'' [''2025-01-01'', ''2025-01-06'']
             [\<lparr>cs_id = ''c1'', cs_ora = None, cs_tipo = Some ''PICC'', cs_motivo = ''Chiuso''\<rparr>] []
           = Rejected SLOT_CLOSED"
    by (simp add: canBook_spec_def wednesday_facts wildcardRule_def)
  have 3: "canBook_spec 20103 ''09:00'' ''PICC'' [''2025-01-01'', ''2025-01-06''] []
             [piccAtNine ''a1'' ''p1'', piccAtNine ''a2'' ''p3''] = Rejected SLOT_FULL"
    by (simp add: canBook_spec_def appointmentsForSlot_spec_def wednesday_facts piccAtNine_def)
  have 4: "canBook_spec 20106 ''09:00'' ''PICC'' [''2025-01-01'', ''2025-01-06''] [] []
           = Rejected NON_WORKING_DAY"
    by (simp add: canBook_spec_def sat)
  have 5: "2 \<le> length (getAppointmentsForSlot [piccAtNine ''a1'' ''p1'', piccAtNine ''a2'' ''p3'']
                          ''09:00'' ''PICC'')"
    by (simp add: getAppointmentsForSlot_def piccAtNine_def)
  have 6: "list_all (\<lambda>a. a_data a = format_date 20103)
             [piccAtNine ''a1'' ''p1'', piccAtNine ''a2'' ''p3'']"
    by (simp add: wednesday_facts piccAtNine_def)
  have d1: "\<forall>a \<in> set (appointments wednesday). a_data a = format_date (currentDate wednesday)"
    by (simp add: wednesday_def)
  have d2: "\<forall>a \<in> set (appointments ?closed). a_data a = format_date (currentDate ?closed)"
    by (simp add: wednesday_def)
  have d3: "\<forall>a \<in> set (appointments ?full). a_data a = format_date (currentDate ?full)"
    by (simp add: wednesday_def wednesday_facts piccAtNine_def)
  have d4: "\<forall>a \<in> set (appointments ?sat). a_data a = format_date (currentDate ?sat)"
    by (simp add: wednesday_def)
  have a: "handleSlotClick wednesday ''09:00'' ''PICC''
     = (wednesday\<lparr>selectedSlot := Some \<lparr>slot_ora = ''09:00'', slot_tipo = ''PICC''\<rparr>,
                   dialogOpen := True\<rparr>, [])"
    using handleSlotClick_gate
            [of wednesday "''09:00''" "''PICC''", THEN conjunct2, THEN conjunct1, THEN mp, OF d1]
    by (simp add: wednesday_def 1)
  have b: "handleSlotClick ?closed ''09:00'' ''PICC'' = (?closed\<lparr>reopenDialogOpen := True\<rparr>, [])"
    using handleSlotClick_gate
            [of ?closed "''09:00''" "''PICC''", THEN conjunct2, THEN conjunct1, THEN mp, OF d2]
    by (simp add: wednesday_def 2)
  have c: "handleSlotClick ?full ''09:00'' ''PICC'' = (?full, [''Slot pieno (max 2 pazienti)''])"
    using handleSlotClick_gate
            [of ?full "''09:00''" "''PICC''", THEN conjunct2, THEN conjunct1, THEN mp, OF d3]
    by (simp add: wednesday_def 3)
  have d: "handleSlotClick ?sat ''09:00'' ''PICC'' = (?sat, [])"
    using handleSlotClick_gate
            [of ?sat "''09:00''" "''PICC''", THEN conjunct2, THEN conjunct1, THEN mp, OF d4]
    by (simp add: wednesday_def 4)
  show ?thesis using a b c d 5 6 by simp
qed

text \<open>
  The claim read with the slot of the specification, a (date, hour, type), fails on a
  list that still holds another day's appointments. On Wednesday 2025-01-15, with two
  PICC appointments at 09:00 of 2025-01-16 in the list, the slot of the day holds no
  appointment and \<open>canBook\<close> permits the booking, yet the click shows "slot full".
\<close>

theorem handleSlotClick_stale_list_counterexample:
  "canBook_spec (currentDate staleWednesday) ''09:00'' ''PICC'' (holidays staleWednesday)
     (closedSlots staleWednesday) (appointments staleWednesday) = Ok
   \<and> appointmentsForSlot_spec (format_date (currentDate staleWednesday)) ''09:00'' ''PICC''
       (appointments staleWednesday) = []
   \<and> handleSlotClick staleWednesday ''09:00'' ''PICC''
       = (staleWednesday, [''Slot pieno (max 2 pazienti)''])"
proof -
  have 1: "appointmentsForSlot_spec (format_date (currentDate staleWednesday)) ''09:00'' ''PICC''
       (appointments staleWednesday) = []"
    by (simp add: staleWednesday_def wednesday_def wednesday_facts piccAtNine_def
          appointmentsForSlot_spec_def)
  have 2: "canBook_spec (currentDate staleWednesday) ''09:00'' ''PICC'' (holidays staleWednesday)
     (closedSlots staleWednesday) (appointments staleWednesday) = Ok"
    unfolding canBook_spec_def 1
    by (simp add: staleWednesday_def wednesday_def wednesday_facts)
  have 3: "handleSlotClick staleWednesday ''09:00'' ''PICC''
       = (staleWednesday, [''Slot pieno (max 2 pazienti)''])"
    by (simp add: handleSlotClick_def isHoliday_def isSlotClosed_def getAppointmentsForSlot_def
          staleWednesday_def wednesday_def wednesday_facts piccAtNine_def)
  show ?thesis using 1 2 3 by (intro conjI)
qed

section \<open>Patient search and the roster filter\<close>

lemma includes_str_sublist: "includes_str s q = sublist q s"
  by (induction s) (simp_all add: sublist_Cons_right)

lemma includes_ignoring_case:
  "includes_str (toLowerCase name) (toLowerCase q) = containsIgnoringCase toLowerCase name q"
  by (simp add: includes_str_sublist sublist_def containsIgnoringCase_def)

text \<open>
  Where the fold works letter by letter, as it does on the strings of the examples, a
  name contains the query case-insensitively exactly when some part of the name equals
  the query letter for letter up to the fold.
\<close>

lemma containsIgnoringCase_letterwise:
  "containsIgnoringCase (map f) name q
     \<longleftrightarrow> (\<exists>pre mid post. name = pre @ mid @ post \<and> map f mid = map f q)"
proof
  assume "containsIgnoringCase (map f) name q"
  then obtain ps ss where "map f name = ps @ map f q @ ss"
    unfolding containsIgnoringCase_def by blast
  then have "\<exists>us vs. name = us @ vs \<and> ps = map f us \<and> map f q @ ss = map f vs"
    by (simp only: map_eq_append_conv)
  then obtain pre rest where 1: "name = pre @ rest" and 2: "map f rest = map f q @ ss"
    by metis
  from 2 have "\<exists>us vs. rest = us @ vs \<and> map f q = map f us \<and> ss = map f vs"
    by (simp only: map_eq_append_conv)
  then obtain mid post where "rest = mid @ post" "map f mid = map f q"
    by metis
  with 1 show "\<exists>pre mid post. name = pre @ mid @ post \<and> map f mid = map f q" by blast
next
  assume "\<exists>pre mid post. name = pre @ mid @ post \<and> map f mid = map f q"
  then obtain pre mid post where "name = pre @ mid @ post" "map f mid = map f q" by blast
  then have "map f name = map f pre @ map f q @ map f post" by simp
  then show "containsIgnoringCase (map f) name q"
    unfolding containsIgnoringCase_def by blast
qed

lemma latin1_examples:
  "latin1ToLowerCase [CHR ''n'', CHR ''i'', CHR ''c'', CHR ''o'', CHR ''l'', CHR 0xF2]
     = [CHR ''n'', CHR ''i'', CHR ''c'', CHR ''o'', CHR ''l'', CHR 0xF2]"
  "latin1ToLowerCase [CHR ''N'', CHR ''I'', CHR ''C'', CHR ''O'', CHR ''L'', CHR 0xD2]
     = [CHR ''n'', CHR ''i'', CHR ''c'', CHR ''o'', CHR ''l'', CHR 0xF2]"
  "latin1ToLowerCase ''GRECO'' = ''greco''"
  "latin1ToLowerCase ''RO'' = ''ro''" "latin1ToLowerCase ''Mario'' = ''mario''"
  "latin1ToLowerCase ''Rossi'' = ''rossi''" "latin1ToLowerCase ''Rosa'' = ''rosa''"
  "latin1ToLowerCase ''Bianchi'' = ''bianchi''" "latin1ToLowerCase ''Anna'' = ''anna''"
  "latin1ToLowerCase ''Verdi'' = ''verdi''"
  by (simp_all add: latin1ToLowerCase_def latin1Capitals_def latin1Smalls_def)

text \<open>
  C9. When a slot of type \<open>t\<close> is being booked and the search query is not empty, the
  suggestion list is exactly the list of the in-care patients (in roster order) whose
  given or family name contains the query case-insensitively, under the runtime's
  \<open>toLowerCase\<close> whatever letters it folds, and whose type is \<open>t\<close> or
  \<open>"PICC_MED"\<close>. A \<open>"PICC_MED"\<close> patient whose name matches is suggested for either
  slot type; a suggested patient of a single type has the type of the slot.
\<close>

theorem patientSearchEffect_suggestions:
  assumes "searchQuery s \<noteq> []" and "selectedSlot s = Some sl"
  shows "filteredPatients (patientSearchEffect toLowerCase s) =
           filter (\<lambda>p. (containsIgnoringCase toLowerCase (p_nome p) (searchQuery s)
                        \<or> containsIgnoringCase toLowerCase (p_cognome p) (searchQuery s))
                      \<and> (p_tipo p = slot_tipo sl \<or> p_tipo p = ''PICC_MED''))
                  (patients s)
       \<and> (\<forall>p \<in> set (patients s). p_tipo p = ''PICC_MED'' \<and>
              (containsIgnoringCase toLowerCase (p_nome p) (searchQuery s)
               \<or> containsIgnoringCase toLowerCase (p_cognome p) (searchQuery s))
            \<longrightarrow> p \<in> set (filteredPatients (patientSearchEffect toLowerCase s)))
       \<and> (\<forall>p \<in> set (filteredPatients (patientSearchEffect toLowerCase s)).
              p_tipo p \<noteq> ''PICC_MED'' \<longrightarrow> p_tipo p = slot_tipo sl)"
proof -
  have len: "1 \<le> length (searchQuery s)" using assms(1) by (cases "searchQuery s") auto
  have eq: "filteredPatients (patientSearchEffect toLowerCase s) =
           filter (\<lambda>p. (containsIgnoringCase toLowerCase (p_nome p) (searchQuery s)
                        \<or> containsIgnoringCase toLowerCase (p_cognome p) (searchQuery s))
                      \<and> (p_tipo p = slot_tipo sl \<or> p_tipo p = ''PICC_MED''))
                  (patients s)"
    using len assms(2) by (simp add: patientSearchEffect_def Let_def includes_ignoring_case)
  show ?thesis unfolding eq by auto
qed

text \<open>
  For the PICC slot, the query \<open>nicol\<close> with the small accented o suggests the patient
  entered as \<open>NICOL\<close> with the capital accented O; the query \<open>RO\<close> suggests Mario
  Rossi (PICC) and not Rosa Bianchi (MED).
\<close>

theorem patientSearchEffect_suggestions_witness:
  "searchQuery searching \<noteq> []
   \<and> selectedSlot searching = Some \<lparr>slot_ora = ''09:00'', slot_tipo = ''PICC''\<rparr>
   \<and> filteredPatients (patientSearchEffect latin1ToLowerCase searching) =
           filter (\<lambda>p. (containsIgnoringCase latin1ToLowerCase (p_nome p) (searchQuery searching)
                        \<or> containsIgnoringCase latin1ToLowerCase (p_cognome p) (searchQuery searching))
                      \<and> (p_tipo p = ''PICC'' \<or> p_tipo p = ''PICC_MED''))
                  (patients searching)
   \<and> filteredPatients (patientSearchEffect latin1ToLowerCase searching) = [greco]
   \<and> filteredPatients (patientSearchEffect latin1ToLowerCase (searching\<lparr>searchQuery := ''RO''\<rparr>))
       = [rossi]"
proof -
  have h1: "searchQuery searching \<noteq> []" by (simp add: searching_def)
  have h2: "selectedSlot searching = Some \<lparr>slot_ora = ''09:00'', slot_tipo = ''PICC''\<rparr>"
    by (simp add: searching_def)
  have t: "filteredPatients (patientSearchEffect latin1ToLowerCase searching) =
           filter (\<lambda>p. (containsIgnoringCase latin1ToLowerCase (p_nome p) (searchQuery searching)
                        \<or> containsIgnoringCase latin1ToLowerCase (p_cognome p) (searchQuery searching))
                      \<and> (p_tipo p = slot_tipo \<lparr>slot_ora = ''09:00'', slot_tipo = ''PICC''\<rparr>
                          \<or> p_tipo p = ''PICC_MED''))
                  (patients searching)"
    using patientSearchEffect_suggestions [OF h1 h2] by (rule conjunct1)
  have sl: "slot_tipo \<lparr>slot_ora = ''09:00'', slot_tipo = ''PICC''\<rparr> = ''PICC''" by simp
  have e: "filteredPatients (patientSearchEffect latin1ToLowerCase searching) = [greco]"
    by (simp add: patientSearchEffect_def Let_def searching_def wednesday_def rossi_def bianchi_def
          verdi_def greco_def latin1_examples)
  have e': "filteredPatients (patientSearchEffect latin1ToLowerCase (searching\<lparr>searchQuery := ''RO''\<rparr>))
              = [rossi]"
    by (simp add: patientSearchEffect_def Let_def searching_def wednesday_def rossi_def bianchi_def
          verdi_def greco_def latin1_examples)
  show ?thesis using h1 h2 t[unfolded sl] e e' by (intro conjI)
qed

lemma rosterKeeps_iff:
  "rosterKeeps toLowerCase q typeFilter p =
     (matchesQuery toLowerCase q p \<and>
      (typeFilter = ''PICC'' \<longrightarrow> p_tipo p = ''PICC'' \<or> p_tipo p = ''PICC_MED'') \<and>
      (typeFilter = ''MED'' \<longrightarrow> p_tipo p = ''MED'' \<or> p_tipo p = ''PICC_MED'') \<and>
      (typeFilter = ''PICC_MED'' \<longrightarrow> p_tipo p = ''PICC_MED''))"
  unfolding rosterKeeps_def matchesQuery_def Let_def includes_ignoring_case by auto

text \<open>
  C10. In the roster the type filter is by eligibility. For each of the three tabs, with
  \<open>ps\<close> the list of \<open>allPatients\<close> under that tab: the filter \<open>"PICC"\<close> keeps exactly
  the patients of \<open>ps\<close> that match the search query and whose type is \<open>"PICC"\<close> or
  \<open>"PICC_MED"\<close>; the filter \<open>"MED"\<close> those whose type is \<open>"MED"\<close> or
  \<open>"PICC_MED"\<close>; only the filter \<open>"PICC_MED"\<close> asks for the type \<open>"PICC_MED"\<close>
  itself; the filter \<open>"all"\<close> keeps every patient that matches the query. Under any
  other tab value the list is empty.
\<close>

theorem roster_type_filter_by_eligibility:
  "(\<forall>(tab, ps) \<in> set [(''in_cura'', in_cura ap), (''dimesso'', dimesso ap), (''sospeso'', sospeso ap)].
      roster_filteredPatients toLowerCase ap tab q ''PICC'' =
        filter (\<lambda>p. matchesQuery toLowerCase q p
                    \<and> (p_tipo p = ''PICC'' \<or> p_tipo p = ''PICC_MED'')) ps
      \<and> roster_filteredPatients toLowerCase ap tab q ''MED'' =
        filter (\<lambda>p. matchesQuery toLowerCase q p
                    \<and> (p_tipo p = ''MED'' \<or> p_tipo p = ''PICC_MED'')) ps
      \<and> roster_filteredPatients toLowerCase ap tab q ''PICC_MED'' =
        filter (\<lambda>p. matchesQuery toLowerCase q p \<and> p_tipo p = ''PICC_MED'') ps
      \<and> roster_filteredPatients toLowerCase ap tab q ''all'' =
        filter (matchesQuery toLowerCase q) ps)
   \<and> (\<forall>tab typeFilter. tab \<notin> {''in_cura'', ''dimesso'', ''sospeso''} \<longrightarrow>
        roster_filteredPatients toLowerCase ap tab q typeFilter = [])"
  by (simp add: roster_filteredPatients_def allPatients_at_def rosterKeeps_iff[abs_def])

text \<open>
  The tab of the suspended patients, which holds one patient of each type and differs
  from the two other tabs: each filter without a query, and the filter \<open>"PICC"\<close> with
  the query \<open>nicol\<close> and the small accented o.
\<close>

theorem roster_type_filter_by_eligibility_witness:
  "roster_filteredPatients latin1ToLowerCase roster ''sospeso'' [] ''PICC''
     = [verdi\<lparr>p_status := ''sospeso''\<rparr>, greco\<lparr>p_status := ''sospeso''\<rparr>]
   \<and> roster_filteredPatients latin1ToLowerCase roster ''sospeso'' [] ''MED''
     = [bianchi\<lparr>p_status := ''sospeso''\<rparr>, verdi\<lparr>p_status := ''sospeso''\<rparr>]
   \<and> roster_filteredPatients latin1ToLowerCase roster ''sospeso'' [] ''PICC_MED''
     = [verdi\<lparr>p_status := ''sospeso''\<rparr>]
   \<and> roster_filteredPatients latin1ToLowerCase roster ''dimesso'' [] ''PICC'' = []
   \<and> roster_filteredPatients latin1ToLowerCase roster ''in_cura'' [] ''PICC'' = [rossi]
   \<and> roster_filteredPatients latin1ToLowerCase roster ''sospeso'' (''nicol'' @ [CHR 0xF2]) ''PICC''
     = [greco\<lparr>p_status := ''sospeso''\<rparr>]"
proof -
  note T = roster_type_filter_by_eligibility
             [where toLowerCase = latin1ToLowerCase and ap = roster and q = "[]", THEN conjunct1]
  have m: "(''sospeso'', sospeso roster)
            \<in> set [(''in_cura'', in_cura roster), (''dimesso'', dimesso roster),
                   (''sospeso'', sospeso roster)]"
       "(''dimesso'', dimesso roster)
            \<in> set [(''in_cura'', in_cura roster), (''dimesso'', dimesso roster),
                   (''sospeso'', sospeso roster)]"
       "(''in_cura'', in_cura roster)
            \<in> set [(''in_cura'', in_cura roster), (''dimesso'', dimesso roster),
                   (''sospeso'', sospeso roster)]"
    by simp_all
  have a: "roster_filteredPatients latin1ToLowerCase roster ''sospeso'' [] ''PICC''
             = [verdi\<lparr>p_status := ''sospeso''\<rparr>, greco\<lparr>p_status := ''sospeso''\<rparr>]"
    using T [THEN bspec, OF m(1)]
    by (simp add: matchesQuery_def roster_def rossi_def bianchi_def verdi_def greco_def)
  have b: "roster_filteredPatients latin1ToLowerCase roster ''sospeso'' [] ''MED''
             = [bianchi\<lparr>p_status := ''sospeso''\<rparr>, verdi\<lparr>p_status := ''sospeso''\<rparr>]"
    using T [THEN bspec, OF m(1)]
    by (simp add: matchesQuery_def roster_def rossi_def bianchi_def verdi_def greco_def)
  have c: "roster_filteredPatients latin1ToLowerCase roster ''sospeso'' [] ''PICC_MED''
             = [verdi\<lparr>p_status := ''sospeso''\<rparr>]"
    using T [THEN bspec, OF m(1)]
    by (simp add: matchesQuery_def roster_def rossi_def bianchi_def verdi_def greco_def)
  have d: "roster_filteredPatients latin1ToLowerCase roster ''dimesso'' [] ''PICC'' = []"
    using T [THEN bspec, OF m(2)]
    by (simp add: matchesQuery_def roster_def rossi_def bianchi_def verdi_def greco_def)
  have e: "roster_filteredPatients latin1ToLowerCase roster ''in_cura'' [] ''PICC'' = [rossi]"
    using T [THEN bspec, OF m(3)]
    by (simp add: matchesQuery_def roster_def rossi_def bianchi_def verdi_def greco_def)
  have f: "roster_filteredPatients latin1ToLowerCase roster ''sospeso'' (''nicol'' @ [CHR 0xF2]) ''PICC''
             = [greco\<lparr>p_status := ''sospeso''\<rparr>]"
    by (simp add: roster_filteredPatients_def allPatients_at_def rosterKeeps_def Let_def
          roster_def rossi_def bianchi_def verdi_def greco_def latin1_examples)
  show ?thesis using a b c d e f by (intro conjI)
qed

section \<open>Status changes need their metadata\<close>

lemma single_missing:
  "metadataMissing f \<Longrightarrow> \<not> list_ex isApiPut (handleStatusChange f r)"
  by (auto simp: metadataMissing_def handleStatusChange_def isApiPut_def split: option.splits)

lemma single_missing_error:
  "metadataMissing f \<Longrightarrow> selectedPatientForStatus f \<noteq> None \<Longrightarrow>
     \<exists>msg. handleStatusChange f r = [ToastError msg]"
  by (auto simp: metadataMissing_def handleStatusChange_def split: option.splits)

lemma batch_missing:
  "metadataMissing f \<Longrightarrow> \<not> list_ex isApiPut (handleBatchStatusChange f r)"
  by (auto simp: metadataMissing_def handleBatchStatusChange_def isApiPut_def)

lemma batch_missing_error:
  "metadataMissing f \<Longrightarrow> selectedPatients f \<noteq> [] \<Longrightarrow>
     \<exists>msg. handleBatchStatusChange f r = [ToastError msg]"
  by (auto simp: metadataMissing_def handleBatchStatusChange_def)

lemma single_put_body:
  "ApiPut url body \<in> set (handleStatusChange f r) \<Longrightarrow> \<not> metadataMissing f \<and> carriesMetadata f body"
  by (auto simp: metadataMissing_def carriesMetadata_def handleStatusChange_def Let_def
           split: option.splits if_splits response.splits)

lemma batch_put_body:
  "ApiPut url body \<in> set (handleBatchStatusChange f r) \<Longrightarrow> \<not> metadataMissing f \<and> carriesMetadata f body"
  by (auto simp: metadataMissing_def carriesMetadata_def handleBatchStatusChange_def
           split: if_splits response.splits)

lemma single_sends:
  "selectedPatientForStatus f = Some pt \<Longrightarrow> \<not> metadataMissing f \<Longrightarrow>
   \<not> (newStatus f = ''dimesso'' \<and> statusReason f = ''altro'' \<and> statusNotes f = []) \<Longrightarrow>
     \<exists>body rest. handleStatusChange f r = ApiPut (''/patients/'' @ p_id pt) body # rest
                 \<and> carriesMetadata f body"
  by (auto simp: metadataMissing_def carriesMetadata_def handleStatusChange_def Let_def)

lemma batch_sends:
  "selectedPatients f \<noteq> [] \<Longrightarrow> \<not> metadataMissing f \<Longrightarrow>
     \<exists>body rest. handleBatchStatusChange f r = ApiPut ''/patients/batch/status'' body # rest
                 \<and> carriesMetadata f body"
  by (auto simp: metadataMissing_def carriesMetadata_def handleBatchStatusChange_def)

text \<open>
  C8. The status-change submission, single and batch, sends no update request when the
  required metadata is missing. If the target status is \<open>"dimesso"\<close> and no discharge
  reason is set, or it is \<open>"sospeso"\<close> and no note is entered, neither handler issues a
  PUT, whatever the server would answer; the handler of a dialog that has its patient
  (its selection) shows one error and returns. Every PUT either handler issues carries
  \<open>discharge_reason\<close> and \<open>discharge_notes\<close> for \<open>"dimesso"\<close> and
  \<open>suspend_notes\<close> for \<open>"sospeso"\<close>. And the PUT is issued when the metadata is
  there: by the batch handler for every non-empty selection, by the single handler for
  every selected patient unless it is a discharge for the reason \<open>"altro"\<close> without a
  note, which the single handler checks as well.
\<close>

theorem status_change_requires_metadata:
  "(metadataMissing f \<longrightarrow>
      \<not> list_ex isApiPut (handleStatusChange f r1) \<and>
      \<not> list_ex isApiPut (handleBatchStatusChange f r2) \<and>
      (selectedPatientForStatus f \<noteq> None \<longrightarrow> (\<exists>msg. handleStatusChange f r1 = [ToastError msg])) \<and>
      (selectedPatients f \<noteq> [] \<longrightarrow> (\<exists>msg. handleBatchStatusChange f r2 = [ToastError msg])))
   \<and> (\<forall>url body. ApiPut url body \<in> set (handleStatusChange f r1) \<union> set (handleBatchStatusChange f r2)
          \<longrightarrow> carriesMetadata f body)
   \<and> (\<not> metadataMissing f \<longrightarrow>
        (\<forall>pt. selectedPatientForStatus f = Some pt \<and>
              \<not> (newStatus f = ''dimesso'' \<and> statusReason f = ''altro'' \<and> statusNotes f = []) \<longrightarrow>
           (\<exists>body rest. handleStatusChange f r1 = ApiPut (''/patients/'' @ p_id pt) body # rest
                        \<and> carriesMetadata f body)) \<and>
        (selectedPatients f \<noteq> [] \<longrightarrow>
           (\<exists>body rest. handleBatchStatusChange f r2 = ApiPut ''/patients/batch/status'' body # rest
                        \<and> carriesMetadata f body)))"
proof (intro conjI impI allI)
  show "\<not> list_ex isApiPut (handleStatusChange f r1)" if "metadataMissing f"
    using that by (rule single_missing)
  show "\<not> list_ex isApiPut (handleBatchStatusChange f r2)" if "metadataMissing f"
    using that by (rule batch_missing)
  show "\<exists>msg. handleStatusChange f r1 = [ToastError msg]"
    if "metadataMissing f" "selectedPatientForStatus f \<noteq> None"
    using that by (rule single_missing_error)
  show "\<exists>msg. handleBatchStatusChange f r2 = [ToastError msg]"
    if "metadataMissing f" "selectedPatients f \<noteq> []"
    using that by (rule batch_missing_error)
  show "carriesMetadata f body"
    if "ApiPut url body \<in> set (handleStatusChange f r1) \<union> set (handleBatchStatusChange f r2)"
    for url body
    using that single_put_body batch_put_body by blast
  show "\<exists>body rest. handleStatusChange f r1 = ApiPut (''/patients/'' @ p_id pt) body # rest
                        \<and> carriesMetadata f body"
    if "\<not> metadataMissing f"
       "selectedPatientForStatus f = Some pt \<and>
              \<not> (newStatus f = ''dimesso'' \<and> statusReason f = ''altro'' \<and> statusNotes f = [])"
    for pt
    using that single_sends by blast
  show "\<exists>body rest. handleBatchStatusChange f r2 = ApiPut ''/patients/batch/status'' body # rest
                        \<and> carriesMetadata f body"
    if "\<not> metadataMissing f" "selectedPatients f \<noteq> []"
    using that batch_sends by blast
qed

text \<open>
  A discharge of Mario Rossi: without a reason both handlers show the error and send
  nothing; with the reason \<open>guarito\<close> the single handler sends the PUT with the reason
  and the notes, then reports success.
\<close>

theorem status_change_requires_metadata_witness:
  "metadataMissing dischargeNoReason
   \<and> handleStatusChange dischargeNoReason (Resolved ())
       = [ToastError ''Seleziona una motivazione per la dimissione'']
   \<and> handleBatchStatusChange dischargeNoReason Failed
       = [ToastError ''Seleziona una motivazione per la dimissione'']
   \<and> \<not> list_ex isApiPut (handleStatusChange dischargeNoReason (Resolved ()))
   \<and> \<not> list_ex isApiPut (handleBatchStatusChange dischargeNoReason Failed)
   \<and> \<not> metadataMissing dischargeHealed
   \<and> handleStatusChange dischargeHealed (Resolved ())
       = [ApiPut ''/patients/p1''
            [(''status'', JString ''dimesso''), (''discharge_reason'', JString ''guarito''),
             (''discharge_notes'', JString [])],
          ToastSuccess ''Paziente dimesso'', SetStatusDialogOpen False, FetchAllPatients]
   \<and> map_of [(''status'', JString ''dimesso''), (''discharge_reason'', JString ''guarito''),
              (''discharge_notes'', JString [])] ''discharge_reason''
       = Some (JString (statusReason dischargeHealed))"
proof -
  have m: "metadataMissing dischargeNoReason"
    by (simp add: metadataMissing_def dischargeNoReason_def)
  have n: "\<not> metadataMissing dischargeHealed"
    by (simp add: metadataMissing_def dischargeHealed_def)
  have e1: "handleStatusChange dischargeNoReason (Resolved ())
              = [ToastError ''Seleziona una motivazione per la dimissione'']"
    by (simp add: handleStatusChange_def dischargeNoReason_def)
  have e2: "handleBatchStatusChange dischargeNoReason Failed
              = [ToastError ''Seleziona una motivazione per la dimissione'']"
    by (simp add: handleBatchStatusChange_def dischargeNoReason_def)
  have e3: "handleStatusChange dischargeHealed (Resolved ())
       = [ApiPut ''/patients/p1''
            [(''status'', JString ''dimesso''), (''discharge_reason'', JString ''guarito''),
             (''discharge_notes'', JString [])],
          ToastSuccess ''Paziente dimesso'', SetStatusDialogOpen False, FetchAllPatients]"
    by (simp add: handleStatusChange_def dischargeHealed_def rossi_def statusLabels_def)
  note T1 = status_change_requires_metadata [of dischargeNoReason "Resolved ()" Failed]
  note T2 = status_change_requires_metadata [of dischargeHealed "Resolved ()" Failed]
  from T1 m have p1: "\<not> list_ex isApiPut (handleStatusChange dischargeNoReason (Resolved ()))"
    and p2: "\<not> list_ex isApiPut (handleBatchStatusChange dischargeNoReason Failed)"
    by blast+
  have "ApiPut ''/patients/p1''
            [(''status'', JString ''dimesso''), (''discharge_reason'', JString ''guarito''),
             (''discharge_notes'', JString [])]
        \<in> set (handleStatusChange dischargeHealed (Resolved ()))
          \<union> set (handleBatchStatusChange dischargeHealed Failed)"
    by (simp add: e3)
  with T2 have c: "carriesMetadata dischargeHealed
        [(''status'', JString ''dimesso''), (''discharge_reason'', JString ''guarito''),
         (''discharge_notes'', JString [])]"
    by blast
  have d: "newStatus dischargeHealed = ''dimesso''" by (simp add: dischargeHealed_def)
  from c d have c': "map_of [(''status'', JString ''dimesso''), (''discharge_reason'', JString ''guarito''),
              (''discharge_notes'', JString [])] ''discharge_reason''
       = Some (JString (statusReason dischargeHealed))"
    unfolding carriesMetadata_def by blast
  show ?thesis using m e1 e2 p1 p2 n e3 c' by (intro conjI)
qed

end
